theory Spec2Isabelle
  imports Main "HOL-Library.Word"
begin

unbundle bit_operations_syntax

section \<open>Stratum v2 Template Provider: data model\<close>

text \<open>
  The development follows \<^verbatim>\<open>src/node/sv2_template_provider.cpp\<close> and
  \<^verbatim>\<open>src/common/sv2_noise.h\<close>. Machine integers are words of their width;
  \<^verbatim>\<open>size_t\<close> positions and lengths are \<open>nat\<close>. \<^verbatim>\<open>CAmount\<close> is \<^verbatim>\<open>int64_t\<close>: a word of
  64 bits read in two's complement (\<open>sint\<close>), whose addition wraps around and whose
  comparisons are the signed ones (\<open><s\<close>).
\<close>

type_synonym u8 = "8 word"
type_synonym u16 = "16 word"
type_synonym u32 = "32 word"
type_synonym u64 = "64 word"
type_synonym uint256 = "u8 list"
type_synonym CAmount = "64 word"

text \<open>
  What a C++ call can do besides returning: index a \<^verbatim>\<open>Span\<close> or a \<^verbatim>\<open>std::vector\<close>
  outside its bounds (undefined behaviour in C++), stay forever in the retry loop of
  \<^verbatim>\<open>SendBuf\<close>, or leave by an exception that only \<^verbatim>\<open>ThreadSv2Handler\<close> catches.
\<close>

datatype fault = OutOfBounds | SendStalled | Throws

subsection \<open>Constants\<close>

definition POLY1305_TAGLEN :: nat where
  "POLY1305_TAGLEN = 16"

definition KEY_SIZE :: nat where
  "KEY_SIZE = 32"

definition NOISE_MAX_CHUNK_SIZE :: nat where
  "NOISE_MAX_CHUNK_SIZE = 65535"

text \<open>
  Modelled from the spec: \<^verbatim>\<open>MAX_BLOCK_WEIGHT\<close> is declared in consensus/consensus.h, which
  is not among the sources; the specification gives 4,000,000. It is an \<^verbatim>\<open>unsigned int\<close>.
\<close>

definition MAX_BLOCK_WEIGHT :: u32 where
  "MAX_BLOCK_WEIGHT = 4000000"

text \<open>
  Modelled from the spec: \<^verbatim>\<open>TP_SUBPROTOCOL\<close> is declared in a header that is not among the
  sources; the specification gives 0x02.
\<close>

definition TP_SUBPROTOCOL :: u8 where
  "TP_SUBPROTOCOL = 2"

text \<open>
  Modelled from the spec: \<^verbatim>\<open>SV2_HEADER_PLAIN_SIZE\<close> is declared in a header that is not among
  the sources; the specification gives a header of exactly 6 bytes.
\<close>

definition SV2_HEADER_PLAIN_SIZE :: nat where
  "SV2_HEADER_PLAIN_SIZE = 6"

text \<open>
  Modelled from the spec: \<^verbatim>\<open>SV2_HEADER_ENCRYPTED_SIZE\<close> is declared in a header that is not
  among the sources; the specification gives 6 + 16 (the Poly1305 tag) = 22 bytes.
\<close>

definition SV2_HEADER_ENCRYPTED_SIZE :: nat where
  "SV2_HEADER_ENCRYPTED_SIZE = SV2_HEADER_PLAIN_SIZE + POLY1305_TAGLEN"

text \<open>
  Modelled from the spec: \<^verbatim>\<open>EncryptedMessageSize\<close> is only declared in sv2_noise.h (its body
  is in sv2_noise.cpp, not among the sources). The specification defines it as
  \<^verbatim>\<open>plain_len + 16 * ceil(plain_len / 65535)\<close>.
\<close>

definition EncryptedMessageSize :: "nat \<Rightarrow> nat" where
  "EncryptedMessageSize msg_len =
     msg_len + POLY1305_TAGLEN * ((msg_len + NOISE_MAX_CHUNK_SIZE - 1) div NOISE_MAX_CHUNK_SIZE)"

subsection \<open>Transactions, blocks, templates\<close>

record CTxIn =
  scriptSig :: "u8 list"
  nSequence :: u32
  scriptWitness :: "u8 list list"  \<comment> \<open>\<^verbatim>\<open>scriptWitness.stack\<close>\<close>

record CTransaction =
  vin :: "CTxIn list"
  vout :: "(CAmount \<times> u8 list) list"
  nLockTime :: u32

record CBlock =
  nVersion :: u32
  hashPrevBlock :: uint256
  hashMerkleRoot :: uint256
  nTime :: u32
  nBits :: u32
  nNonce :: u32
  vtx :: "CTransaction list"

text \<open>\<^verbatim>\<open>CBlockHeader::IsNull\<close>: a header is null when its \<^verbatim>\<open>nBits\<close> is zero.\<close>

definition IsNull :: "CBlock \<Rightarrow> bool" where
  "IsNull blk = (nBits blk = 0)"

record CBlockTemplate =
  block :: CBlock
  vTxFees :: "CAmount list"

subsection \<open>Messages\<close>

text \<open>
  Incoming messages. The typed messages are deserialised by \<^verbatim>\<open>ss >> msg\<close> inside a
  \<^verbatim>\<open>try\<close> block; the deserialisers are not among the sources, so a received message is
  its type together with the outcome of that statement: \<open>Some\<close> of the fields the
  handler reads, or \<open>None\<close> when it throws.
\<close>

record Sv2SetupConnectionMsg =
  m_protocol :: u8
  m_min_version :: u16
  m_max_version :: u16
  m_flags :: u32

record Sv2SubmitSolutionMsg =
  m_template_id :: u64
  m_version :: u32
  m_header_timestamp :: u32
  m_header_nonce :: u32
  m_coinbase_tx :: CTransaction

datatype Sv2NetMsg =
    SETUP_CONNECTION "Sv2SetupConnectionMsg option"
  | COINBASE_OUTPUT_DATA_SIZE "u32 option"
  | SUBMIT_SOLUTION "Sv2SubmitSolutionMsg option"
  | REQUEST_TRANSACTION_DATA "u64 option"
  | OTHER_MSG_TYPE u8

text \<open>
  Outgoing messages, each with the arguments its constructor is given in the source.
\<close>

datatype sv2_msg =
    SetupConnectionSuccess u16 u32
  | SetupConnectionError u32 string
  | NewTemplate CBlock u64 bool
  | SetNewPrevHash CBlock u64
  | RequestTransactionDataSuccess u64 "u8 list" "CTransaction list"
  | RequestTransactionDataError u64 string

subsection \<open>Clients and the provider\<close>

text \<open>
  \<^verbatim>\<open>Sock::Send\<close> either returns a byte count (non-positive when nothing was written) or
  throws. The socket of a client is the list of outcomes of its coming \<^verbatim>\<open>Send\<close> calls; when
  the list is used up every later call fails.
\<close>

datatype send_result = Sent int | SendThrows

text \<open>
  \<open>m_noise\<close> is the receiving cipher state of the session. \<open>wire\<close> is not a field of the
  source: it records the messages whose buffers \<^verbatim>\<open>SendBuf\<close> has written completely.
\<close>

record 'n Sv2Client =
  m_sock :: "send_result list"
  m_noise :: 'n
  m_disconnect_flag :: bool
  m_setup_connection_confirmed :: bool
  m_coinbase_output_data_size_recv :: bool
  m_coinbase_tx_outputs_size :: u32
  m_latest_submitted_template_fees :: CAmount
  wire :: "sv2_msg list"

text \<open>
  \<open>submitted\<close> is not a field of the source: it records the blocks handed to
  \<^verbatim>\<open>m_chainman.ProcessNewBlock\<close>.
\<close>

record Sv2TemplateProvider =
  m_template_id :: u64
  m_block_cache :: "u64 \<rightharpoonup> CBlockTemplate"
  m_protocol_version :: u16
  m_optional_features :: u32
  m_minimum_fee_delta :: CAmount
  m_best_prev_hash :: uint256
  submitted :: "CBlock list"

text \<open>
  The collaborators that are not among the sources: the block assembler (as a function of
  \<^verbatim>\<open>options.nBlockMaxWeight\<close>, standing for the chain and mempool state during a call),
  \<^verbatim>\<open>BlockMerkleRoot\<close>, and the length of the serialised payload of an outgoing message
  (\<^verbatim>\<open>net_msg.m_msg.size()\<close>).
\<close>

record collaborators =
  CreateNewBlock :: "nat \<Rightarrow> CBlockTemplate"
  BlockMerkleRoot :: "CBlock \<Rightarrow> uint256"
  msg_size :: "sv2_msg \<Rightarrow> nat"

section \<open>Sending\<close>

text \<open>
  \<^verbatim>\<open>SendBuf\<close>: the loop runs while \<^verbatim>\<open>total_sent < buffer.size()\<close>; a positive return value
  of \<^verbatim>\<open>Send\<close> is added to \<^verbatim>\<open>total_sent\<close>, any other makes the loop sleep and retry; an
  exception returns false. After the loop the result is \<^verbatim>\<open>total_sent == buffer.size()\<close>.
  With no \<^verbatim>\<open>Send\<close> outcome left the loop never exits.
\<close>

fun SendBuf_loop :: "send_result list \<Rightarrow> nat \<Rightarrow> nat \<Rightarrow> fault + (bool \<times> send_result list)" where
  "SendBuf_loop [] total_sent buffer_size =
     (if total_sent < buffer_size then Inl SendStalled else Inr (total_sent = buffer_size, []))"
| "SendBuf_loop (r # sock) total_sent buffer_size =
     (if total_sent < buffer_size then
        (case r of
           SendThrows \<Rightarrow> Inr (False, sock)
         | Sent sent \<Rightarrow>
             if sent > 0 then SendBuf_loop sock (total_sent + nat sent) buffer_size
             else SendBuf_loop sock total_sent buffer_size)
      else Inr (total_sent = buffer_size, r # sock))"

definition SendBuf :: "send_result list \<Rightarrow> nat \<Rightarrow> fault + (bool \<times> send_result list)" where
  "SendBuf sock buffer_size = SendBuf_loop sock 0 buffer_size"

text \<open>
  \<^verbatim>\<open>EncryptAndSendMessage\<close>: the buffer holds the encrypted header and the encrypted payload;
  its contents do not influence the control flow, only its size does.
\<close>

definition EncryptAndSendMessage ::
  "collaborators \<Rightarrow> 'n Sv2Client \<Rightarrow> sv2_msg \<Rightarrow> fault + (bool \<times> 'n Sv2Client)" where
  "EncryptAndSendMessage ext client net_msg =
     (let encrypted_msg_size = EncryptedMessageSize (msg_size ext net_msg);
          buffer_size = SV2_HEADER_ENCRYPTED_SIZE + encrypted_msg_size
      in case SendBuf (m_sock client) buffer_size of
           Inl f \<Rightarrow> Inl f
         | Inr (ok, sock') \<Rightarrow>
             Inr (ok, client\<lparr>m_sock := sock', wire := wire client @ (if ok then [net_msg] else [])\<rparr>))"

section \<open>Building and sending work\<close>

record NewWorkSet =
  new_template :: sv2_msg
  block_template :: CBlockTemplate
  prev_hash :: sv2_msg

text \<open>
  \<^verbatim>\<open>BuildNewWorkSet\<close>. The subtraction is on \<^verbatim>\<open>unsigned int\<close>; \<^verbatim>\<open>Assume\<close> does not stop
  a release build.
\<close>

definition BuildNewWorkSet ::
  "collaborators \<Rightarrow> Sv2TemplateProvider \<Rightarrow> bool \<Rightarrow> u32 \<Rightarrow> NewWorkSet" where
  "BuildNewWorkSet ext tp future_template coinbase_output_max_additional_size =
     (let nBlockMaxWeight = unat (MAX_BLOCK_WEIGHT - coinbase_output_max_additional_size);
          blocktemplate = CreateNewBlock ext nBlockMaxWeight
      in \<lparr>new_template = NewTemplate (block blocktemplate) (m_template_id tp) future_template,
          block_template = blocktemplate,
          prev_hash = SetNewPrevHash (block blocktemplate) (m_template_id tp)\<rparr>)"

text \<open>
  The fee loop of \<^verbatim>\<open>SendWork\<close> (lines 335 to 340): entries with \<^verbatim>\<open>fee < 0\<close> (the coinbase)
  are skipped, the others are added to \<^verbatim>\<open>fees\<close> in \<^verbatim>\<open>int64_t\<close>.
\<close>

definition template_fees :: "CAmount list \<Rightarrow> CAmount" where
  "template_fees fs = fold (\<lambda>fee fees. if fee <s 0 then fees else fees + fee) fs 0"

text \<open>\<^verbatim>\<open>std::map::insert\<close> keeps an entry that is already there.\<close>

definition cache_insert ::
  "u64 \<Rightarrow> CBlockTemplate \<Rightarrow> (u64 \<rightharpoonup> CBlockTemplate) \<Rightarrow> (u64 \<rightharpoonup> CBlockTemplate)" where
  "cache_insert k v m = (case m k of None \<Rightarrow> m(k \<mapsto> v) | Some _ \<Rightarrow> m)"

text \<open>
  \<^verbatim>\<open>SendWork\<close>. The gate of line 341,
  \<^verbatim>\<open>m_latest_submitted_template_fees + m_minimum_fee_delta > fees\<close>, adds and compares
  \<^verbatim>\<open>int64_t\<close> values.
\<close>

definition SendWork ::
  "collaborators \<Rightarrow> Sv2TemplateProvider \<Rightarrow> 'n Sv2Client \<Rightarrow> bool \<Rightarrow>
     fault + (bool \<times> Sv2TemplateProvider \<times> 'n Sv2Client)" where
  "SendWork ext tp client send_new_prevhash =
     (let tp1 = tp\<lparr>m_template_id := m_template_id tp + 1\<rparr>;
          new_work_set = BuildNewWorkSet ext tp1 send_new_prevhash (m_coinbase_tx_outputs_size client);
          fees = template_fees (vTxFees (block_template new_work_set))
      in if \<not> send_new_prevhash \<and>
            fees <s m_latest_submitted_template_fees client + m_minimum_fee_delta tp1
         then Inr (True, tp1, client)
         else
           let tp2 = tp1\<lparr>m_block_cache :=
                       cache_insert (m_template_id tp1) (block_template new_work_set) (m_block_cache tp1)\<rparr>
           in case EncryptAndSendMessage ext client (new_template new_work_set) of
                Inl f \<Rightarrow> Inl f
              | Inr (sent_template, client1) \<Rightarrow>
                  if \<not> sent_template then Inr (False, tp2, client1)
                  else if send_new_prevhash then
                    (case EncryptAndSendMessage ext client1 (prev_hash new_work_set) of
                       Inl f \<Rightarrow> Inl f
                     | Inr (sent_prevhash, client2) \<Rightarrow>
                         if \<not> sent_prevhash then Inr (False, tp2, client2)
                         else Inr (True, tp2, client2\<lparr>m_latest_submitted_template_fees := fees\<rparr>))
                  else Inr (True, tp2, client1\<lparr>m_latest_submitted_template_fees := fees\<rparr>))"

section \<open>Processing a message\<close>

text \<open>
  \<^verbatim>\<open>ProcessSv2Message\<close>, one equation per \<^verbatim>\<open>case\<close> of the \<^verbatim>\<open>switch\<close>. The provider and the
  client are passed and returned; a \<^verbatim>\<open>return\<close> of the source is the value of its branch.

  In the \<^verbatim>\<open>SUBMIT_SOLUTION\<close> case \<^verbatim>\<open>block\<close> is a reference to the cached block: the
  assignments change the cache entry, and \<^verbatim>\<open>std::make_shared<CBlock>(std::move(block))\<close>
  move-constructs the submitted block from it, which leaves the cached block with an empty
  \<^verbatim>\<open>vtx\<close> (the header fields are trivially copied and stay).

  In the \<^verbatim>\<open>REQUEST_TRANSACTION_DATA\<close> case \<^verbatim>\<open>block.vtx[0]->vin[0]\<close> indexes both vectors
  without a check; \<open>witness_reserve_value_of\<close> is lines 544 to 550 of the source.
\<close>

definition witness_reserve_value_of :: "CBlock \<Rightarrow> fault + u8 list" where
  "witness_reserve_value_of blk =
     (if \<not> IsNull blk then
        (case vtx blk of
           [] \<Rightarrow> Inl OutOfBounds
         | coinbase # _ \<Rightarrow>
             (case vin coinbase of
                [] \<Rightarrow> Inl OutOfBounds
              | txin # _ \<Rightarrow>
                  (case scriptWitness txin of
                     [] \<Rightarrow> Inr []
                   | stack0 # _ \<Rightarrow> Inr stack0)))
      else Inr [])"

fun ProcessSv2Message ::
  "collaborators \<Rightarrow> Sv2NetMsg \<Rightarrow> Sv2TemplateProvider \<Rightarrow> 'n Sv2Client \<Rightarrow>
     fault + (Sv2TemplateProvider \<times> 'n Sv2Client)" where
  "ProcessSv2Message ext (SETUP_CONNECTION parsed) tp client =
     (if m_setup_connection_confirmed client then Inr (tp, client)
      else case parsed of
        None \<Rightarrow> Inr (tp, client\<lparr>m_disconnect_flag := True\<rparr>)
      | Some setup_conn \<Rightarrow>
          if m_protocol setup_conn \<noteq> TP_SUBPROTOCOL then
            (case EncryptAndSendMessage ext client
                    (SetupConnectionError (m_flags setup_conn) ''unsupported-protocol'') of
               Inl f \<Rightarrow> Inl f
             | Inr (_, client1) \<Rightarrow> Inr (tp, client1\<lparr>m_disconnect_flag := True\<rparr>))
          else if m_protocol_version tp < m_min_version setup_conn \<or>
                  m_protocol_version tp > m_max_version setup_conn then
            (case EncryptAndSendMessage ext client
                    (SetupConnectionError (m_flags setup_conn) ''protocol-version-mismatch'') of
               Inl f \<Rightarrow> Inl f
             | Inr (_, client1) \<Rightarrow> Inr (tp, client1\<lparr>m_disconnect_flag := True\<rparr>))
          else
            (case EncryptAndSendMessage ext client
                    (SetupConnectionSuccess (m_protocol_version tp) (m_optional_features tp)) of
               Inl f \<Rightarrow> Inl f
             | Inr (ok, client1) \<Rightarrow>
                 if \<not> ok then Inr (tp, client1\<lparr>m_disconnect_flag := True\<rparr>)
                 else Inr (tp, client1\<lparr>m_setup_connection_confirmed := True\<rparr>)))"
| "ProcessSv2Message ext (COINBASE_OUTPUT_DATA_SIZE parsed) tp client =
     (if \<not> m_setup_connection_confirmed client then Inr (tp, client\<lparr>m_disconnect_flag := True\<rparr>)
      else case parsed of
        None \<Rightarrow> Inr (tp, client\<lparr>m_disconnect_flag := True\<rparr>)
      | Some max_additional_size \<Rightarrow>
          let client1 = client\<lparr>m_coinbase_output_data_size_recv := True\<rparr>
          in if max_additional_size > MAX_BLOCK_WEIGHT then
               Inr (tp, client1\<lparr>m_disconnect_flag := True\<rparr>)
             else
               (case SendWork ext tp (client1\<lparr>m_coinbase_tx_outputs_size := max_additional_size\<rparr>) True of
                  Inl f \<Rightarrow> Inl f
                | Inr (_, tp1, client2) \<Rightarrow> Inr (tp1, client2)))"
| "ProcessSv2Message ext (SUBMIT_SOLUTION parsed) tp client =
     (if \<not> m_setup_connection_confirmed client \<and> \<not> m_coinbase_output_data_size_recv client
      then Inr (tp, client\<lparr>m_disconnect_flag := True\<rparr>)
      else case parsed of
        None \<Rightarrow> Inr (tp, client)
      | Some submit_solution \<Rightarrow>
          (case m_block_cache tp (Sv2SubmitSolutionMsg.m_template_id submit_solution) of
             Some cached_block \<Rightarrow>
               let blk = block cached_block;
                   cb = m_coinbase_tx submit_solution;
                   blk1 = blk\<lparr>vtx := (if length (vtx blk) = 0 then vtx blk @ [cb] else (vtx blk)[0 := cb])\<rparr>;
                   blk2 = blk1\<lparr>nVersion := m_version submit_solution,
                              nTime := m_header_timestamp submit_solution,
                              nNonce := m_header_nonce submit_solution\<rparr>;
                   blk3 = blk2\<lparr>hashMerkleRoot := BlockMerkleRoot ext blk2\<rparr>;
                   moved_from = blk3\<lparr>vtx := []\<rparr>
               in Inr (tp\<lparr>m_block_cache :=
                            (m_block_cache tp)(Sv2SubmitSolutionMsg.m_template_id submit_solution \<mapsto>
                               cached_block\<lparr>block := moved_from\<rparr>),
                          submitted := submitted tp @ [blk3]\<rparr>,
                       client)
           | None \<Rightarrow> Inr (tp, client)))"
| "ProcessSv2Message ext (REQUEST_TRANSACTION_DATA parsed) tp client =
     (case parsed of
        None \<Rightarrow> Inr (tp, client)
      | Some template_id \<Rightarrow>
          (case m_block_cache tp template_id of
             Some cached_block \<Rightarrow>
               let blk = block cached_block
               in (case witness_reserve_value_of blk of
                     Inl f \<Rightarrow> Inl f
                   | Inr witness_reserve_value \<Rightarrow>
                       let txs = (if length (vtx blk) > 0 then tl (vtx blk) else [])
                       in (case EncryptAndSendMessage ext client
                                 (RequestTransactionDataSuccess template_id witness_reserve_value txs) of
                             Inl f \<Rightarrow> Inl f
                           | Inr (ok, client1) \<Rightarrow>
                               if \<not> ok then Inr (tp, client1\<lparr>m_disconnect_flag := True\<rparr>)
                               else Inr (tp, client1)))
           | None \<Rightarrow>
               (case EncryptAndSendMessage ext client
                       (RequestTransactionDataError template_id ''template-id-not-found'') of
                  Inl f \<Rightarrow> Inl f
                | Inr (ok, client1) \<Rightarrow>
                    if \<not> ok then Inr (tp, client1\<lparr>m_disconnect_flag := True\<rparr>)
                    else Inr (tp, client1))))"
| "ProcessSv2Message ext (OTHER_MSG_TYPE t) tp client = Inr (tp, client)"

text \<open>
  The loop of \<^verbatim>\<open>ThreadSv2Handler\<close> over the decoded messages of one read: every message is
  processed, whatever the flags of the client have become.
\<close>

fun ProcessSv2Messages ::
  "collaborators \<Rightarrow> Sv2NetMsg list \<Rightarrow> Sv2TemplateProvider \<Rightarrow> 'n Sv2Client \<Rightarrow>
     fault + (Sv2TemplateProvider \<times> 'n Sv2Client)" where
  "ProcessSv2Messages ext [] tp client = Inr (tp, client)"
| "ProcessSv2Messages ext (m # ms) tp client =
     (case ProcessSv2Message ext m tp client of
        Inl f \<Rightarrow> Inl f
      | Inr (tp1, client1) \<Rightarrow> ProcessSv2Messages ext ms tp1 client1)"

section \<open>The template part of the event loop\<close>

record Timer =
  m_interval :: int
  m_last_triggered :: int

text \<open>\<^verbatim>\<open>Timer::trigger\<close>, with the reading of the steady clock as an argument.\<close>

definition trigger :: "Timer \<Rightarrow> int \<Rightarrow> bool \<times> Timer" where
  "trigger t now =
     (if now - m_last_triggered t \<ge> m_interval t then (True, t\<lparr>m_last_triggered := now\<rparr>)
      else (False, t))"

definition DisconnectFlagged :: "'n Sv2Client list \<Rightarrow> 'n Sv2Client list" where
  "DisconnectFlagged clients = filter (\<lambda>client. \<not> m_disconnect_flag client) clients"

text \<open>
  The state that \<^verbatim>\<open>ThreadSv2Handler\<close> keeps across iterations: the provider, its clients,
  and the locals \<^verbatim>\<open>timer\<close> and \<^verbatim>\<open>template_last_update\<close>.
\<close>

record 'n handler =
  provider :: Sv2TemplateProvider
  m_sv2_clients :: "'n Sv2Client list"
  timer :: Timer
  template_last_update :: u32

text \<open>
  Lines 154 to 189 of one iteration, up to the decision \<^verbatim>\<open>should_make_template\<close>. The
  arguments are what the iteration reads from outside: \<^verbatim>\<open>g_best_block\<close>, the clock and
  \<^verbatim>\<open>m_mempool.GetTransactionsUpdated()\<close>. The result is
  \<^verbatim>\<open>(should_make_template, best_block_changed, state)\<close>.
\<close>

definition plan_templates ::
  "uint256 \<Rightarrow> int \<Rightarrow> u32 \<Rightarrow> 'n handler \<Rightarrow> bool \<times> bool \<times> 'n handler" where
  "plan_templates g_best_block now transactions_updated h =
     (let h1 = h\<lparr>m_sv2_clients := DisconnectFlagged (m_sv2_clients h)\<rparr>;
          best_block_changed = (m_best_prev_hash (provider h1) \<noteq> g_best_block);
          h2 = (if best_block_changed
                then h1\<lparr>provider := (provider h1)\<lparr>m_best_prev_hash := g_best_block\<rparr>\<rparr> else h1);
          mempool_last_update = transactions_updated
      in if best_block_changed then
           (True, True,
            h2\<lparr>provider := (provider h2)\<lparr>m_block_cache := Map.empty\<rparr>,
               m_sv2_clients :=
                 map (\<lambda>client. client\<lparr>m_latest_submitted_template_fees := 0\<rparr>) (m_sv2_clients h2),
               template_last_update := mempool_last_update\<rparr>)
         else
           (case trigger (timer h2) now of
              (triggered, timer1) \<Rightarrow>
                (triggered \<and> mempool_last_update > template_last_update h2, False,
                 h2\<lparr>timer := timer1\<rparr>)))"

text \<open>Lines 193 to 201: the loop over the clients.\<close>

fun SendWork_clients ::
  "collaborators \<Rightarrow> bool \<Rightarrow> Sv2TemplateProvider \<Rightarrow> 'n Sv2Client list \<Rightarrow>
     fault + (Sv2TemplateProvider \<times> 'n Sv2Client list)" where
  "SendWork_clients ext best_block_changed tp [] = Inr (tp, [])"
| "SendWork_clients ext best_block_changed tp (client # clients) =
     (if m_coinbase_tx_outputs_size client = 0 then
        (case SendWork_clients ext best_block_changed tp clients of
           Inl f \<Rightarrow> Inl f
         | Inr (tp', clients') \<Rightarrow> Inr (tp', client # clients'))
      else
        (case SendWork ext tp client best_block_changed of
           Inl f \<Rightarrow> Inl f
         | Inr (ok, tp1, client1) \<Rightarrow>
             (case SendWork_clients ext best_block_changed tp1 clients of
                Inl f \<Rightarrow> Inl f
              | Inr (tp', clients') \<Rightarrow>
                  Inr (tp', (if ok then client1 else client1\<lparr>m_disconnect_flag := True\<rparr>) # clients'))))"

text \<open>Lines 154 to 202 of one iteration.\<close>

definition ThreadSv2Handler_templates ::
  "collaborators \<Rightarrow> uint256 \<Rightarrow> int \<Rightarrow> u32 \<Rightarrow> 'n handler \<Rightarrow> fault + 'n handler" where
  "ThreadSv2Handler_templates ext g_best_block now transactions_updated h =
     (case plan_templates g_best_block now transactions_updated h of
        (should_make_template, best_block_changed, h1) \<Rightarrow>
          if should_make_template then
            (case SendWork_clients ext best_block_changed (provider h1) (m_sv2_clients h1) of
               Inl f \<Rightarrow> Inl f
             | Inr (tp, clients) \<Rightarrow> Inr (h1\<lparr>provider := tp, m_sv2_clients := clients\<rparr>))
          else Inr h1)"

text \<open>
  Successive \<^verbatim>\<open>SendWork\<close> calls for one client, each with the chain view and the flag of
  its call, up to the first call that returns false. The result is whether all calls
  returned true.
\<close>

fun SendWork_calls ::
  "(collaborators \<times> bool) list \<Rightarrow> Sv2TemplateProvider \<Rightarrow> 'n Sv2Client \<Rightarrow>
     fault + (bool \<times> Sv2TemplateProvider \<times> 'n Sv2Client)" where
  "SendWork_calls [] tp client = Inr (True, tp, client)"
| "SendWork_calls ((ext, send_new_prevhash) # calls) tp client =
     (case SendWork ext tp client send_new_prevhash of
        Inl f \<Rightarrow> Inl f
      | Inr (ok, tp1, client1) \<Rightarrow>
          if ok then SendWork_calls calls tp1 client1 else Inr (False, tp1, client1))"

section \<open>Decoding received bytes\<close>

text \<open>
  \<^verbatim>\<open>Span(&buffer[pos], count)\<close> is built without a check; the bytes it covers are read and
  written by \<^verbatim>\<open>DecryptMessage\<close>. A span inside the buffer yields its bytes, any other is an
  access outside the buffer.
\<close>

definition span :: "u8 list \<Rightarrow> nat \<Rightarrow> nat \<Rightarrow> fault + u8 list" where
  "span buffer pos count =
     (if pos + count \<le> length buffer then Inr (take count (drop pos buffer)) else Inl OutOfBounds)"

record Sv2NetHeader =
  m_msg_type :: u8
  m_msg_len :: u32

text \<open>
  Modelled from the spec: the deserialiser of \<^verbatim>\<open>Sv2NetHeader\<close> is not among the sources.
  The specification gives exactly 6 bytes: \<open>extension_type\<close> (u16, little endian),
  \<open>msg_type\<close> (u8), \<open>msg_length\<close> (u24, little endian). Fewer bytes make the stream throw.
\<close>

fun Sv2NetHeader_Unserialize :: "u8 list \<Rightarrow> Sv2NetHeader option" where
  "Sv2NetHeader_Unserialize (e0 # e1 # t # l0 # l1 # l2 # rest) =
     Some \<lparr>m_msg_type = t,
           m_msg_len = ucast l0 OR push_bit 8 (ucast l1) OR push_bit 16 (ucast l2)\<rparr>"
| "Sv2NetHeader_Unserialize _ = None"

text \<open>
  \<^verbatim>\<open>ReadAndDecryptSv2NetMsgs\<close>. \<^verbatim>\<open>DecryptMessage\<close> belongs to the cipher, which is not among
  the sources: it is a parameter that takes the cipher state and the bytes of the span and
  returns the decrypted bytes (\<open>None\<close> when it returns false) and the next cipher state.
\<close>

function ReadAndDecryptSv2NetMsgs_loop ::
  "('n \<Rightarrow> u8 list \<Rightarrow> u8 list option \<times> 'n) \<Rightarrow> u8 list \<Rightarrow> nat \<Rightarrow> 'n Sv2Client \<Rightarrow>
     (Sv2NetHeader \<times> u8 list) list \<Rightarrow> fault + ((Sv2NetHeader \<times> u8 list) list \<times> 'n Sv2Client)" where
  "ReadAndDecryptSv2NetMsgs_loop DecryptMessage buffer bytes_read client sv2_msgs =
     (if bytes_read < length buffer then
        (case span buffer bytes_read SV2_HEADER_ENCRYPTED_SIZE of
           Inl f \<Rightarrow> Inl f
         | Inr encrypted_header \<Rightarrow>
             (case DecryptMessage (m_noise client) encrypted_header of
                (None, noise1) \<Rightarrow>
                  Inr (sv2_msgs, client\<lparr>m_noise := noise1, m_disconnect_flag := True\<rparr>)
              | (Some decrypted_header, noise1) \<Rightarrow>
                  (case Sv2NetHeader_Unserialize (take SV2_HEADER_PLAIN_SIZE decrypted_header) of
                     None \<Rightarrow> Inl Throws
                   | Some header \<Rightarrow>
                       (case span buffer (bytes_read + SV2_HEADER_ENCRYPTED_SIZE)
                               (EncryptedMessageSize (unat (m_msg_len header))) of
                          Inl f \<Rightarrow> Inl f
                        | Inr encrypted_payload \<Rightarrow>
                            (case DecryptMessage noise1 encrypted_payload of
                               (None, noise2) \<Rightarrow>
                                 Inr (sv2_msgs, client\<lparr>m_noise := noise2, m_disconnect_flag := True\<rparr>)
                             | (Some payload, noise2) \<Rightarrow>
                                 ReadAndDecryptSv2NetMsgs_loop DecryptMessage buffer
                                   (bytes_read + SV2_HEADER_ENCRYPTED_SIZE
                                      + EncryptedMessageSize (unat (m_msg_len header)))
                                   (client\<lparr>m_noise := noise2\<rparr>)
                                   (sv2_msgs @ [(header, take (unat (m_msg_len header)) payload)]))))))
      else Inr (sv2_msgs, client))"
  by pat_completeness auto
termination
  by (relation "measure (\<lambda>(D, buffer, bytes_read, client, sv2_msgs). length buffer - bytes_read)")
     (auto simp: SV2_HEADER_ENCRYPTED_SIZE_def SV2_HEADER_PLAIN_SIZE_def POLY1305_TAGLEN_def)

definition ReadAndDecryptSv2NetMsgs ::
  "('n \<Rightarrow> u8 list \<Rightarrow> u8 list option \<times> 'n) \<Rightarrow> 'n Sv2Client \<Rightarrow> u8 list \<Rightarrow>
     fault + ((Sv2NetHeader \<times> u8 list) list \<times> 'n Sv2Client)" where
  "ReadAndDecryptSv2NetMsgs DecryptMessage client buffer =
     ReadAndDecryptSv2NetMsgs_loop DecryptMessage buffer 0 client []"

section \<open>The symmetric state of the Noise session\<close>

definition PROTOCOL_NAME_HASH :: "u8 list" where
  "PROTOCOL_NAME_HASH =
     [27, 97, 156, 90, 248, 120, 254, 68, 34, 119, 45, 129, 209, 41, 152, 82,
      26, 137, 97, 115, 62, 44, 177, 60, 145, 24, 250, 214, 68, 188, 1, 128]"

definition PROTOCOL_NAME_DOUBLE_HASH :: "u8 list" where
  "PROTOCOL_NAME_DOUBLE_HASH =
     [60, 102, 112, 143, 69, 248, 185, 34, 53, 193, 3, 46, 250, 104, 70, 171,
      139, 103, 55, 191, 199, 9, 77, 179, 99, 170, 7, 240, 219, 36, 226, 71]"

record Sv2CipherState =
  m_key :: "u8 list"
  m_nonce :: u64

record Sv2SymmetricState =
  m_chaining_key :: "u8 list"
  m_hash_output :: uint256
  m_cipher_state :: Sv2CipherState

text \<open>
  The constructor of \<^verbatim>\<open>Sv2SymmetricState\<close>: \<^verbatim>\<open>memcpy\<close> writes the
  \<^verbatim>\<open>PROTOCOL_NAME_HASH.size()\<close> bytes of the constant over the start of the
  \<^verbatim>\<open>KEY_SIZE\<close> bytes of \<^verbatim>\<open>m_chaining_key\<close>, \<^verbatim>\<open>m_hash_output\<close> has its default member
  initialiser, and the default-constructed cipher state has nonce 0. The arguments are the
  indeterminate bytes that the two uninitialised arrays hold before.
\<close>

definition Sv2SymmetricState_init :: "u8 list \<Rightarrow> u8 list \<Rightarrow> Sv2SymmetricState" where
  "Sv2SymmetricState_init uninit_ck uninit_key =
     \<lparr>m_chaining_key =
        PROTOCOL_NAME_HASH @ drop (length PROTOCOL_NAME_HASH) (take KEY_SIZE uninit_ck),
      m_hash_output = PROTOCOL_NAME_DOUBLE_HASH,
      m_cipher_state = \<lparr>m_key = take KEY_SIZE uninit_key, m_nonce = 0\<rparr>\<rparr>"

subsection \<open>SHA-256\<close>

text \<open>
  Modelled from the spec: the specification names the hash, SHA-256; its implementation
  (crypto/sha256.cpp) is not among the sources. The definitions follow FIPS 180-4: words
  of 32 bits, big-endian, blocks of 64 bytes.
\<close>

definition rotr :: "nat \<Rightarrow> u32 \<Rightarrow> u32" where
  "rotr n x = drop_bit n x OR push_bit (32 - n) x"

definition Ch :: "u32 \<Rightarrow> u32 \<Rightarrow> u32 \<Rightarrow> u32" where
  "Ch x y z = (x AND y) XOR (NOT x AND z)"

definition Maj :: "u32 \<Rightarrow> u32 \<Rightarrow> u32 \<Rightarrow> u32" where
  "Maj x y z = (x AND y) XOR (x AND z) XOR (y AND z)"

definition Sigma0 :: "u32 \<Rightarrow> u32" where
  "Sigma0 x = rotr 2 x XOR rotr 13 x XOR rotr 22 x"

definition Sigma1 :: "u32 \<Rightarrow> u32" where
  "Sigma1 x = rotr 6 x XOR rotr 11 x XOR rotr 25 x"

definition sigma0 :: "u32 \<Rightarrow> u32" where
  "sigma0 x = rotr 7 x XOR rotr 18 x XOR drop_bit 3 x"

definition sigma1 :: "u32 \<Rightarrow> u32" where
  "sigma1 x = rotr 17 x XOR rotr 19 x XOR drop_bit 10 x"

text \<open>
  The round constants (the first 32 bits of the fractional parts of the cube roots of the
  first 64 primes) and the initial hash value (of the square roots of the first 8 primes).
\<close>

definition K256 :: "u32 list" where
  "K256 =
    [1116352408, 1899447441, 3049323471, 3921009573, 961987163, 1508970993, 2453635748, 2870763221,
     3624381080, 310598401, 607225278, 1426881987, 1925078388, 2162078206, 2614888103, 3248222580,
     3835390401, 4022224774, 264347078, 604807628, 770255983, 1249150122, 1555081692, 1996064986,
     2554220882, 2821834349, 2952996808, 3210313671, 3336571891, 3584528711, 113926993, 338241895,
     666307205, 773529912, 1294757372, 1396182291, 1695183700, 1986661051, 2177026350, 2456956037,
     2730485921, 2820302411, 3259730800, 3345764771, 3516065817, 3600352804, 4094571909, 275423344,
     430227734, 506948616, 659060556, 883997877, 958139571, 1322822218, 1537002063, 1747873779,
     1955562222, 2024104815, 2227730452, 2361852424, 2428436474, 2756734187, 3204031479, 3329325298]"

definition H256_init :: "u32 list" where
  "H256_init =
    [1779033703, 3144134277, 1013904242, 2773480762, 1359893119, 2600822924, 528734635, 1541459225]"

fun words_of :: "u8 list \<Rightarrow> u32 list" where
  "words_of (a # b # c # d # rest) =
     (push_bit 24 (ucast a) OR push_bit 16 (ucast b) OR push_bit 8 (ucast c) OR ucast d) # words_of rest"
| "words_of _ = []"

definition bytes_of :: "u32 \<Rightarrow> u8 list" where
  "bytes_of w = [ucast (drop_bit 24 w), ucast (drop_bit 16 w), ucast (drop_bit 8 w), ucast w]"

text \<open>The message schedule; \<open>win\<close> holds the last 16 words, the oldest first.\<close>

fun schedule :: "nat \<Rightarrow> u32 list \<Rightarrow> u32 list" where
  "schedule 0 win = []"
| "schedule (Suc n) win =
     (let w = sigma1 (win ! 14) + win ! 9 + sigma0 (win ! 1) + win ! 0
      in w # schedule n (tl win @ [w]))"

definition expand :: "u32 list \<Rightarrow> u32 list" where
  "expand blk = blk @ schedule 48 blk"

fun round256 :: "u32 list \<Rightarrow> u32 \<times> u32 \<Rightarrow> u32 list" where
  "round256 [a, b, c, d, e, f, g, h] (k, w) =
     (let t1 = h + Sigma1 e + Ch e f g + k + w;
          t2 = Sigma0 a + Maj a b c
      in [t1 + t2, a, b, c, d + t1, e, f, g])"
| "round256 st _ = st"

definition compress :: "u32 list \<Rightarrow> u32 list \<Rightarrow> u32 list" where
  "compress st blk = map2 (+) st (foldl round256 st (zip K256 (expand blk)))"

definition pad :: "u8 list \<Rightarrow> u8 list" where
  "pad m =
     (let l = length m;
          zeros = (55 + 64 - l mod 64) mod 64
      in m @ [0x80] @ replicate zeros 0 @
         map (\<lambda>i. ucast (drop_bit (8 * i) (word_of_nat (8 * l) :: u64))) [7, 6, 5, 4, 3, 2, 1, 0])"

fun blocks :: "u32 list \<Rightarrow> u32 list list" where
  "blocks ws = (if length ws < 16 then [] else take 16 ws # blocks (drop 16 ws))"

text \<open>
  Modelled from the spec: SHA-256 of a byte string (FIPS 180-4, section 6.2): the padded
  message is cut into blocks of 16 words, each block is compressed into the hash value, and
  the final hash value is written out big-endian.
\<close>

definition SHA256 :: "u8 list \<Rightarrow> u8 list" where
  "SHA256 m = concat (map bytes_of (foldl compress H256_init (blocks (words_of (pad m)))))"

definition ascii :: "string \<Rightarrow> u8 list" where
  "ascii s = map of_char s"

section \<open>Example values\<close>

text \<open>
  A coinbase with the 32-byte witness reserved value, one fee-paying transaction, a
  template of the two, collaborators that serialise every message to 6 bytes (a frame of
  22 + 6 + 16 bytes), and a provider and a client as they are after the handshake.
\<close>

definition example_coinbase :: CTransaction where
  "example_coinbase =
     \<lparr>vin = [\<lparr>scriptSig = [], nSequence = 0xffffffff, scriptWitness = [replicate 32 0]\<rparr>],
      vout = [(5000000000, [])], nLockTime = 0\<rparr>"

definition example_tx :: CTransaction where
  "example_tx =
     \<lparr>vin = [\<lparr>scriptSig = [1], nSequence = 0, scriptWitness = []\<rparr>],
      vout = [(100, [])], nLockTime = 0\<rparr>"

definition example_block :: CBlock where
  "example_block =
     \<lparr>nVersion = 0x20000000, hashPrevBlock = replicate 32 0, hashMerkleRoot = replicate 32 0,
      nTime = 0, nBits = 0x207fffff, nNonce = 0, vtx = [example_coinbase, example_tx]\<rparr>"

definition example_template :: "CAmount \<Rightarrow> CBlockTemplate" where
  "example_template fee = \<lparr>block = example_block, vTxFees = [-1, fee]\<rparr>"

definition example_ext :: "CAmount \<Rightarrow> collaborators" where
  "example_ext fee =
     \<lparr>CreateNewBlock = (\<lambda>nBlockMaxWeight. example_template fee),
      BlockMerkleRoot = (\<lambda>blk. replicate 32 1),
      msg_size = (\<lambda>msg. 6)\<rparr>"

definition example_provider :: Sv2TemplateProvider where
  "example_provider =
     \<lparr>m_template_id = 0, m_block_cache = Map.empty, m_protocol_version = 2,
      m_optional_features = 0, m_minimum_fee_delta = 1000, m_best_prev_hash = replicate 32 0,
      submitted = []\<rparr>"

definition example_client :: "unit Sv2Client" where
  "example_client =
     \<lparr>m_sock = [Sent 44, Sent 44, Sent 44], m_noise = (), m_disconnect_flag = False,
      m_setup_connection_confirmed = False, m_coinbase_output_data_size_recv = False,
      m_coinbase_tx_outputs_size = 0, m_latest_submitted_template_fees = 0, wire = []\<rparr>"

text \<open>The client after \<^verbatim>\<open>SetupConnection\<close> and \<^verbatim>\<open>CoinbaseOutputDataSize\<close>.\<close>

definition example_ready_client :: "unit Sv2Client" where
  "example_ready_client =
     example_client\<lparr>m_setup_connection_confirmed := True,
       m_coinbase_output_data_size_recv := True, m_coinbase_tx_outputs_size := 1\<rparr>"

text \<open>The client after \<^verbatim>\<open>SetupConnection\<close> only.\<close>

definition example_confirmed_client :: "unit Sv2Client" where
  "example_confirmed_client = example_client\<lparr>m_setup_connection_confirmed := True\<rparr>"

text \<open>The provider after it has built template 1 and stored it in the cache.\<close>

definition example_provider_cached :: Sv2TemplateProvider where
  "example_provider_cached =
     example_provider\<lparr>m_template_id := 1, m_block_cache := [1 \<mapsto> example_template 1000]\<rparr>"

text \<open>The fields of the \<^verbatim>\<open>SetupConnection\<close> message of the unit test.\<close>

definition example_setup_conn :: Sv2SetupConnectionMsg where
  "example_setup_conn = \<lparr>m_protocol = 2, m_min_version = 2, m_max_version = 2, m_flags = 1\<rparr>"

definition example_solution :: Sv2SubmitSolutionMsg where
  "example_solution =
     \<lparr>Sv2SubmitSolutionMsg.m_template_id = 1, m_version = 0x20000000, m_header_timestamp = 1700000000,
      m_header_nonce = 42, m_coinbase_tx = example_coinbase\<rparr>"

text \<open>A cipher without state that leaves the bytes as they are.\<close>

definition example_decrypt :: "unit \<Rightarrow> u8 list \<Rightarrow> u8 list option \<times> unit" where
  "example_decrypt noise bytes = (Some bytes, noise)"

text \<open>
  The state of the event loop with the one client, before the first template: the best
  block known to the provider is the all-zero hash.
\<close>

definition example_handler :: "unit handler" where
  "example_handler =
     \<lparr>provider = example_provider_cached, m_sv2_clients = [example_ready_client],
      timer = \<lparr>m_interval = 30, m_last_triggered = - 3600\<rparr>, template_last_update = 0\<rparr>"

section \<open>Shapes of the messages sent by \<^verbatim>\<open>SendWork\<close>\<close>

text \<open>
  What one call of \<^verbatim>\<open>SendWork\<close> that builds template \<open>i\<close> can put on the wire, and what
  \<open>n\<close> successive calls after template \<open>id0\<close> can.
\<close>

definition segment_of :: "u64 \<Rightarrow> sv2_msg list \<Rightarrow> bool" where
  "segment_of i seg \<longleftrightarrow>
     seg = [] \<or> (\<exists>blk. seg = [NewTemplate blk i True, SetNewPrevHash blk i])
       \<or> (\<exists>blk. seg = [NewTemplate blk i False])"

definition trace_ok :: "u64 \<Rightarrow> nat \<Rightarrow> sv2_msg list \<Rightarrow> bool" where
  "trace_ok id0 n sent \<longleftrightarrow>
     (\<forall>pre blk i post. sent = pre @ NewTemplate blk i True # post \<longrightarrow>
         (\<exists>post'. post = SetNewPrevHash blk i # post')) \<and>
     (\<forall>pre blk i post blk'. sent = pre @ NewTemplate blk i False # post \<longrightarrow>
         SetNewPrevHash blk' i \<notin> set post) \<and>
     (\<forall>blk i. SetNewPrevHash blk i \<in> set sent \<longrightarrow> (\<exists>k. 1 \<le> k \<and> k \<le> n \<and> i = id0 + of_nat k))"

section \<open>Properties of sending\<close>

lemmas example_defs = example_coinbase_def example_tx_def example_block_def example_template_def
  example_ext_def example_provider_def example_client_def example_ready_client_def
  example_confirmed_client_def example_provider_cached_def example_setup_conn_def
  example_solution_def example_handler_def

lemmas send_defs = EncryptAndSendMessage_def SendBuf_def EncryptedMessageSize_def
  SV2_HEADER_ENCRYPTED_SIZE_def SV2_HEADER_PLAIN_SIZE_def POLY1305_TAGLEN_def NOISE_MAX_CHUNK_SIZE_def

lemmas work_defs = SendWork_def BuildNewWorkSet_def Let_def template_fees_def cache_insert_def
  word_sless_alt

lemma EncryptAndSendMessage_result:
  assumes "EncryptAndSendMessage ext c m = Inr (ok, c')"
  shows "c' = c\<lparr>m_sock := m_sock c', wire := wire c @ (if ok then [m] else [])\<rparr>"
  using assms
  by (auto simp: EncryptAndSendMessage_def Let_def split: sum.splits prod.splits)

lemma EncryptAndSendMessage_wire:
  "EncryptAndSendMessage ext c m = Inr (True, c') \<Longrightarrow> wire c' = wire c @ [m]"
  by (drule EncryptAndSendMessage_result) (cases c', simp)

lemma EncryptAndSendMessage_fields:
  assumes "EncryptAndSendMessage ext c m = Inr (ok, c')"
  shows "m_disconnect_flag c' = m_disconnect_flag c"
    and "m_setup_connection_confirmed c' = m_setup_connection_confirmed c"
    and "m_coinbase_output_data_size_recv c' = m_coinbase_output_data_size_recv c"
    and "m_coinbase_tx_outputs_size c' = m_coinbase_tx_outputs_size c"
    and "m_latest_submitted_template_fees c' = m_latest_submitted_template_fees c"
    and "m_noise c' = m_noise c"
    and "wire c' = wire c @ (if ok then [m] else [])"
  using assms
  by (auto simp: EncryptAndSendMessage_def Let_def split: sum.splits prod.splits)

lemma EncryptAndSendMessage_shape:
  assumes "EncryptAndSendMessage ext c m = Inr (ok, c')"
  shows "\<exists>s. c' = c\<lparr>m_sock := s, wire := wire c @ (if ok then [m] else [])\<rparr>"
  using assms
  by (auto simp: EncryptAndSendMessage_def Let_def split: sum.splits prod.splits)

declare ReadAndDecryptSv2NetMsgs_loop.simps [simp del]

section \<open>The fee-delta gate\<close>







section \<open>\<^verbatim>\<open>NewTemplate\<close> and \<^verbatim>\<open>SetNewPrevHash\<close> on the wire\<close>

lemma SendWork_segment:
  assumes "SendWork ext tp c b = Inr (True, tp', c')"
  shows "m_template_id tp' = m_template_id tp + 1 \<and>
         (\<exists>seg. wire c' = wire c @ seg \<and> segment_of (m_template_id tp + 1) seg)"
proof (cases "\<not> b \<and>
     template_fees (vTxFees (CreateNewBlock ext (unat (MAX_BLOCK_WEIGHT - m_coinbase_tx_outputs_size c))))
       <s m_latest_submitted_template_fees c + m_minimum_fee_delta tp")
  case True
  with assms show ?thesis
    by (auto simp: SendWork_def BuildNewWorkSet_def Let_def segment_of_def)
next
  case False
  let ?blk = "block (CreateNewBlock ext (unat (MAX_BLOCK_WEIGHT - m_coinbase_tx_outputs_size c)))"
  let ?i = "m_template_id tp + 1"
  from False assms obtain c1 where
    s1: "EncryptAndSendMessage ext c (NewTemplate ?blk ?i b) = Inr (True, c1)"
    by (auto simp: SendWork_def BuildNewWorkSet_def Let_def split: sum.splits prod.splits if_splits)
  have w1: "wire c1 = wire c @ [NewTemplate ?blk ?i b]"
    using s1 by (rule EncryptAndSendMessage_wire)
  show ?thesis
  proof (cases b)
    case True
    with False assms s1 obtain c2 where
      s2: "EncryptAndSendMessage ext c1 (SetNewPrevHash ?blk ?i) = Inr (True, c2)"
      and c': "c' = c2\<lparr>m_latest_submitted_template_fees :=
                 template_fees (vTxFees (CreateNewBlock ext (unat (MAX_BLOCK_WEIGHT - m_coinbase_tx_outputs_size c))))\<rparr>"
      and tp': "m_template_id tp' = ?i"
      by (auto simp: SendWork_def BuildNewWorkSet_def Let_def split: sum.splits prod.splits if_splits)
    have "wire c2 = wire c1 @ [SetNewPrevHash ?blk ?i]"
      using s2 by (rule EncryptAndSendMessage_wire)
    with w1 c' tp' True show ?thesis
      by (auto simp: segment_of_def)
  next
    case b: False
    with False assms s1 have
      "c' = c1\<lparr>m_latest_submitted_template_fees :=
                 template_fees (vTxFees (CreateNewBlock ext (unat (MAX_BLOCK_WEIGHT - m_coinbase_tx_outputs_size c))))\<rparr>"
      and "m_template_id tp' = ?i"
      by (auto simp: SendWork_def BuildNewWorkSet_def Let_def split: sum.splits prod.splits if_splits)
    with w1 b show ?thesis
      by (auto simp: segment_of_def)
  qed
qed


lemma trace_ok_Nil: "trace_ok id0 n []"
  by (simp add: trace_ok_def)

lemma trace_ok_shift:
  assumes "trace_ok (id0 + 1) n sent"
  shows "\<forall>blk i. SetNewPrevHash blk i \<in> set sent \<longrightarrow> (\<exists>k. 2 \<le> k \<and> k \<le> Suc n \<and> i = id0 + of_nat k)"
proof (intro allI impI)
  fix blk i assume "SetNewPrevHash blk i \<in> set sent"
  with assms obtain k where "1 \<le> k" "k \<le> n" "i = id0 + 1 + of_nat k"
    unfolding trace_ok_def by blast
  then have "2 \<le> Suc k \<and> Suc k \<le> Suc n \<and> i = id0 + of_nat (Suc k)"
    by simp
  then show "\<exists>k. 2 \<le> k \<and> k \<le> Suc n \<and> i = id0 + of_nat k" by blast
qed

lemma id_fresh:
  assumes "2 \<le> k" "k \<le> Suc n" "Suc n < 2 ^ 64"
  shows "(id0 :: u64) + of_nat k \<noteq> id0 + 1"
proof
  assume "id0 + of_nat k = id0 + 1"
  then have "(of_nat k :: u64) = of_nat 1" by simp
  then have "k mod 2 ^ 64 = 1 mod 2 ^ 64"
    by (simp only: word_of_nat_eq_iff take_bit_eq_mod len_of_numeral_defs) simp
  with assms show False by simp
qed

lemma trace_ok_segment:
  assumes seg: "segment_of (id0 + 1) seg"
    and rest: "trace_ok (id0 + 1) n sent"
    and n: "Suc n < 2 ^ 64"
  shows "trace_ok id0 (Suc n) (seg @ sent)"
proof -
  note shift = trace_ok_shift [OF rest]
  have ids: "\<forall>blk i. SetNewPrevHash blk i \<in> set sent \<longrightarrow> (\<exists>k. 1 \<le> k \<and> k \<le> Suc n \<and> i = id0 + of_nat k)"
  proof (intro allI impI)
    fix blk i assume "SetNewPrevHash blk i \<in> set sent"
    with shift obtain k where "2 \<le> k" "k \<le> Suc n" "i = id0 + of_nat k" by blast
    then have "1 \<le> k \<and> k \<le> Suc n \<and> i = id0 + of_nat k" by simp
    then show "\<exists>k. 1 \<le> k \<and> k \<le> Suc n \<and> i = id0 + of_nat k" by blast
  qed
  have fresh: "SetNewPrevHash blk (id0 + 1) \<notin> set sent" for blk
  proof
    assume "SetNewPrevHash blk (id0 + 1) \<in> set sent"
    with shift obtain k where k: "2 \<le> k" "k \<le> Suc n" and eq: "id0 + 1 = id0 + of_nat k" by blast
    from id_fresh [OF k n, of id0] eq show False by simp
  qed
  have one: "\<exists>k. 1 \<le> k \<and> k \<le> Suc n \<and> id0 + 1 = id0 + of_nat k"
    by (rule exI [of _ 1]) simp
  from seg consider "seg = []"
    | blk where "seg = [NewTemplate blk (id0 + 1) True, SetNewPrevHash blk (id0 + 1)]"
    | blk where "seg = [NewTemplate blk (id0 + 1) False]"
    unfolding segment_of_def by blast
  then show ?thesis
  proof cases
    case 1
    with rest ids show ?thesis by (simp add: trace_ok_def)
  next
    case 2
    show ?thesis
      unfolding trace_ok_def 2
    proof (intro conjI allI impI)
      fix pre blk' i post
      assume "[NewTemplate blk (id0 + 1) True, SetNewPrevHash blk (id0 + 1)] @ sent = pre @ NewTemplate blk' i True # post"
      then show "\<exists>post'. post = SetNewPrevHash blk' i # post'"
        using rest unfolding trace_ok_def
        by (auto simp: Cons_eq_append_conv)
    next
      fix pre blk' i post blk''
      assume "[NewTemplate blk (id0 + 1) True, SetNewPrevHash blk (id0 + 1)] @ sent = pre @ NewTemplate blk' i False # post"
      then show "SetNewPrevHash blk'' i \<notin> set post"
        using rest unfolding trace_ok_def
        by (auto simp: Cons_eq_append_conv)
    next
      fix blk' i
      assume "SetNewPrevHash blk' i \<in> set ([NewTemplate blk (id0 + 1) True, SetNewPrevHash blk (id0 + 1)] @ sent)"
      then show "\<exists>k. 1 \<le> k \<and> k \<le> Suc n \<and> i = id0 + of_nat k"
        using ids one by auto
    qed
  next
    case 3
    show ?thesis
      unfolding trace_ok_def 3
    proof (intro conjI allI impI)
      fix pre blk' i post
      assume "[NewTemplate blk (id0 + 1) False] @ sent = pre @ NewTemplate blk' i True # post"
      then show "\<exists>post'. post = SetNewPrevHash blk' i # post'"
        using rest unfolding trace_ok_def
        by (auto simp: Cons_eq_append_conv)
    next
      fix pre blk' i post blk''
      assume "[NewTemplate blk (id0 + 1) False] @ sent = pre @ NewTemplate blk' i False # post"
      then show "SetNewPrevHash blk'' i \<notin> set post"
        using rest fresh unfolding trace_ok_def
        by (auto simp: Cons_eq_append_conv)
    next
      fix blk' i
      assume "SetNewPrevHash blk' i \<in> set ([NewTemplate blk (id0 + 1) False] @ sent)"
      then show "\<exists>k. 1 \<le> k \<and> k \<le> Suc n \<and> i = id0 + of_nat k"
        using ids by auto
    qed
  qed
qed

lemma SendWork_calls_trace:
  assumes "SendWork_calls calls tp client = Inr (True, tp', client')"
    and "length calls < 2 ^ 64"
  shows "\<exists>sent. wire client' = wire client @ sent \<and> trace_ok (m_template_id tp) (length calls) sent"
  using assms
proof (induction calls arbitrary: tp client)
  case Nil
  then show ?case by (simp add: trace_ok_Nil)
next
  case (Cons call calls)
  obtain ext b where call: "call = (ext, b)" by (cases call)
  from Cons.prems(1) obtain tp1 client1 where
    first: "SendWork ext tp client b = Inr (True, tp1, client1)"
    and rest: "SendWork_calls calls tp1 client1 = Inr (True, tp', client')"
    unfolding call by (auto split: sum.splits prod.splits if_splits)
  from SendWork_segment [OF first] obtain seg where
    id1: "m_template_id tp1 = m_template_id tp + 1"
    and seg: "wire client1 = wire client @ seg" "segment_of (m_template_id tp + 1) seg"
    by blast
  from Cons.prems(2) have len: "length calls < 2 ^ 64" "Suc (length calls) < 2 ^ 64" by simp_all
  from Cons.IH [OF rest len(1)] obtain sent where
    sent: "wire client' = wire client1 @ sent" "trace_ok (m_template_id tp + 1) (length calls) sent"
    unfolding id1 by blast
  have "trace_ok (m_template_id tp) (Suc (length calls)) (seg @ sent)"
    by (rule trace_ok_segment [OF seg(2) sent(2) len(2)])
  with seg(1) sent(1) show ?case by auto
qed

text \<open>
  Claim C4. Take any run of successive \<^verbatim>\<open>SendWork\<close> calls for a client in which every call
  returns true (fewer than \<open>2^64\<close> calls, so that no template id is used twice), and let
  \<open>sent\<close> be what the run adds to the wire. Wherever \<open>sent\<close> holds a \<^verbatim>\<open>NewTemplate\<close> with
  \<^verbatim>\<open>future_template = true\<close>, the very next message is the \<^verbatim>\<open>SetNewPrevHash\<close> of the same
  block and template id; after a \<^verbatim>\<open>NewTemplate\<close> with \<^verbatim>\<open>future_template = false\<close> no
  \<^verbatim>\<open>SetNewPrevHash\<close> with its template id ever follows.
\<close>

theorem SendWork_pairs_templates:
  assumes "SendWork_calls calls tp client = Inr (True, tp', client')"
    and "length calls < 2 ^ 64"
  shows "\<exists>sent. wire client' = wire client @ sent \<and>
     (\<forall>pre blk i post. sent = pre @ NewTemplate blk i True # post \<longrightarrow>
         (\<exists>post'. post = SetNewPrevHash blk i # post')) \<and>
     (\<forall>pre blk i post blk'. sent = pre @ NewTemplate blk i False # post \<longrightarrow>
         SetNewPrevHash blk' i \<notin> set post)"
  using SendWork_calls_trace [OF assms] unfolding trace_ok_def by blast

theorem SendWork_pairs_templates_witness:
  "\<exists>tp' client'.
     SendWork_calls [(example_ext 1000, True), (example_ext 1500, False), (example_ext 5000, False)]
        example_provider example_ready_client = Inr (True, tp', client') \<and>
     length [(example_ext 1000, True), (example_ext 1500, False), (example_ext 5000, False)] < 2 ^ 64 \<and>
     (\<exists>sent. wire client' = wire example_ready_client @ sent \<and> length sent = 3 \<and>
        (\<forall>pre blk i post. sent = pre @ NewTemplate blk i True # post \<longrightarrow>
            (\<exists>post'. post = SetNewPrevHash blk i # post')) \<and>
        (\<forall>pre blk i post blk'. sent = pre @ NewTemplate blk i False # post \<longrightarrow>
            SetNewPrevHash blk' i \<notin> set post))"
proof -
  let ?calls = "[(example_ext 1000, True), (example_ext 1500, False), (example_ext 5000, False)]"
  obtain tp' client' where
    run: "SendWork_calls ?calls example_provider example_ready_client = Inr (True, tp', client')"
    and three: "length (wire client') = 3" and empty: "wire example_ready_client = []"
    by (simp add: example_defs send_defs work_defs)
  have len: "length ?calls < 2 ^ 64" by simp
  from SendWork_pairs_templates [OF run len] three empty run len show ?thesis
    by (metis append_Nil)
qed

section \<open>\<^verbatim>\<open>SetupConnection\<close>\<close>

text \<open>
  Claim C5. A \<^verbatim>\<open>SetupConnection\<close> message that deserialises, from a client that is not yet
  confirmed, is answered by \<open>reply\<close>: \<^verbatim>\<open>SetupConnectionError\<close> with code
  \<^verbatim>\<open>unsupported-protocol\<close> when its protocol is not 0x02, else \<^verbatim>\<open>SetupConnectionError\<close> with
  code \<^verbatim>\<open>protocol-version-mismatch\<close> when its minimum version is above the provider's version
  or its maximum version below it, else \<^verbatim>\<open>SetupConnectionSuccess\<close> with the provider's
  version and optional features. When the reply has been sent, it is the next message on the
  wire; after an error the client is flagged for disconnection and stays unconfirmed, after
  the success it is marked \<^verbatim>\<open>m_setup_connection_confirmed\<close> and its disconnect flag is as
  before.
\<close>

theorem SetupConnection_reply:
  assumes "\<not> m_setup_connection_confirmed client"
    and "reply =
      (if m_protocol setup_conn \<noteq> 0x02
       then SetupConnectionError (m_flags setup_conn) ''unsupported-protocol''
       else if m_min_version setup_conn > m_protocol_version tp \<or>
               m_max_version setup_conn < m_protocol_version tp
       then SetupConnectionError (m_flags setup_conn) ''protocol-version-mismatch''
       else SetupConnectionSuccess (m_protocol_version tp) (m_optional_features tp))"
    and "EncryptAndSendMessage ext client reply = Inr (True, client1)"
  shows "\<exists>client'.
     ProcessSv2Message ext (SETUP_CONNECTION (Some setup_conn)) tp client = Inr (tp, client') \<and>
     wire client' = wire client @ [reply] \<and>
     (if m_protocol setup_conn \<noteq> 0x02 \<or>
         m_min_version setup_conn > m_protocol_version tp \<or>
         m_max_version setup_conn < m_protocol_version tp
      then m_disconnect_flag client' \<and> \<not> m_setup_connection_confirmed client'
      else m_setup_connection_confirmed client' \<and>
           m_disconnect_flag client' = m_disconnect_flag client)"
  using assms EncryptAndSendMessage_fields [OF assms(3)]
  by (auto simp: TP_SUBPROTOCOL_def)

theorem SetupConnection_reply_witness:
  "\<not> m_setup_connection_confirmed example_client \<and>
   (\<exists>client'. ProcessSv2Message (example_ext 1000) (SETUP_CONNECTION (Some example_setup_conn))
        example_provider example_client = Inr (example_provider, client') \<and>
      wire client' = [SetupConnectionSuccess 2 0] \<and>
      m_setup_connection_confirmed client' \<and> \<not> m_disconnect_flag client') \<and>
   (\<exists>client'. ProcessSv2Message (example_ext 1000)
        (SETUP_CONNECTION (Some (example_setup_conn\<lparr>m_protocol := 1\<rparr>)))
        example_provider example_client = Inr (example_provider, client') \<and>
      wire client' = [SetupConnectionError 1 ''unsupported-protocol''] \<and>
      m_disconnect_flag client' \<and> \<not> m_setup_connection_confirmed client') \<and>
   (\<exists>client'. ProcessSv2Message (example_ext 1000)
        (SETUP_CONNECTION (Some (example_setup_conn\<lparr>m_min_version := 3, m_max_version := 4\<rparr>)))
        example_provider example_client = Inr (example_provider, client') \<and>
      wire client' = [SetupConnectionError 1 ''protocol-version-mismatch''] \<and>
      m_disconnect_flag client' \<and> \<not> m_setup_connection_confirmed client')"
proof -
  have fresh: "\<not> m_setup_connection_confirmed example_client"
    by (simp add: example_defs)
  have sent: "EncryptAndSendMessage (example_ext 1000) example_client reply =
      Inr (True, example_client\<lparr>m_sock := [Sent 44, Sent 44], wire := [reply]\<rparr>)" for reply
    by (simp add: example_defs send_defs)
  note reply = SetupConnection_reply [OF fresh refl sent, of _ example_provider]
  from reply [of example_setup_conn] reply [of "example_setup_conn\<lparr>m_protocol := 1\<rparr>"]
    reply [of "example_setup_conn\<lparr>m_min_version := 3, m_max_version := 4\<rparr>"] fresh
  show ?thesis
    by (simp add: example_defs)
qed

section \<open>\<^verbatim>\<open>RequestTransactionData\<close>\<close>

text \<open>
  The replies to a \<^verbatim>\<open>RequestTransactionData\<close> message that deserialises, for a cached
  template as the block assembler builds it (a non-null header and a coinbase whose first
  input has a witness stack) and for a template id that is not in the cache. In both cases,
  once the reply has been sent, the provider is unchanged and the disconnect flag of the
  client is as before.
\<close>

lemma RequestTransactionData_reply:
  "(m_block_cache tp template_id = Some cached \<and> \<not> IsNull (block cached) \<and>
      vtx (block cached) = coinbase # txs \<and> vin coinbase = txin # ins \<and>
      scriptWitness txin = stack0 # stack \<and>
      EncryptAndSendMessage ext client (RequestTransactionDataSuccess template_id stack0 txs)
        = Inr (True, client1)
    \<longrightarrow> ProcessSv2Message ext (REQUEST_TRANSACTION_DATA (Some template_id)) tp client
          = Inr (tp, client1) \<and>
        wire client1 = wire client @ [RequestTransactionDataSuccess template_id stack0 txs] \<and>
        m_disconnect_flag client1 = m_disconnect_flag client) \<and>
   (m_block_cache tp template_id = None \<and>
      EncryptAndSendMessage ext client
          (RequestTransactionDataError template_id ''template-id-not-found'')
        = Inr (True, client2)
    \<longrightarrow> ProcessSv2Message ext (REQUEST_TRANSACTION_DATA (Some template_id)) tp client
          = Inr (tp, client2) \<and>
        wire client2 = wire client @ [RequestTransactionDataError template_id ''template-id-not-found''] \<and>
        m_disconnect_flag client2 = m_disconnect_flag client)"
proof (intro conjI impI)
  assume h: "m_block_cache tp template_id = Some cached \<and> \<not> IsNull (block cached) \<and>
      vtx (block cached) = coinbase # txs \<and> vin coinbase = txin # ins \<and>
      scriptWitness txin = stack0 # stack \<and>
      EncryptAndSendMessage ext client (RequestTransactionDataSuccess template_id stack0 txs)
        = Inr (True, client1)"
  then have sent: "EncryptAndSendMessage ext client (RequestTransactionDataSuccess template_id stack0 txs)
        = Inr (True, client1)" by simp
  from h show "ProcessSv2Message ext (REQUEST_TRANSACTION_DATA (Some template_id)) tp client
          = Inr (tp, client1)"
    by (simp add: witness_reserve_value_of_def)
  from EncryptAndSendMessage_fields [OF sent]
  show "wire client1 = wire client @ [RequestTransactionDataSuccess template_id stack0 txs]"
    and "m_disconnect_flag client1 = m_disconnect_flag client" by simp_all
next
  assume h: "m_block_cache tp template_id = None \<and>
      EncryptAndSendMessage ext client
          (RequestTransactionDataError template_id ''template-id-not-found'')
        = Inr (True, client2)"
  then have sent: "EncryptAndSendMessage ext client
          (RequestTransactionDataError template_id ''template-id-not-found'') = Inr (True, client2)"
    by simp
  from h show "ProcessSv2Message ext (REQUEST_TRANSACTION_DATA (Some template_id)) tp client
          = Inr (tp, client2)"
    by simp
  from EncryptAndSendMessage_fields [OF sent]
  show "wire client2 = wire client @ [RequestTransactionDataError template_id ''template-id-not-found'']"
    and "m_disconnect_flag client2 = m_disconnect_flag client" by simp_all
qed


lemma RequestTransactionData_reply_example:
  "(\<exists>client1. ProcessSv2Message (example_ext 1000) (REQUEST_TRANSACTION_DATA (Some 1))
        example_provider_cached example_ready_client = Inr (example_provider_cached, client1) \<and>
      wire client1 = [RequestTransactionDataSuccess 1 (replicate 32 0) [example_tx]] \<and>
      \<not> m_disconnect_flag client1) \<and>
   (\<exists>client2. ProcessSv2Message (example_ext 1000) (REQUEST_TRANSACTION_DATA (Some 7))
        example_provider_cached example_ready_client = Inr (example_provider_cached, client2) \<and>
      wire client2 = [RequestTransactionDataError 7 ''template-id-not-found''] \<and>
      \<not> m_disconnect_flag client2)"
proof -
  have sent: "EncryptAndSendMessage (example_ext 1000) example_ready_client reply =
      Inr (True, example_ready_client\<lparr>m_sock := [Sent 44, Sent 44], wire := [reply]\<rparr>)" for reply
    by (simp add: example_defs send_defs)
  have found: "m_block_cache example_provider_cached 1 = Some (example_template 1000) \<and>
      \<not> IsNull (block (example_template 1000)) \<and>
      vtx (block (example_template 1000)) = example_coinbase # [example_tx] \<and>
      vin example_coinbase = \<lparr>scriptSig = [], nSequence = 0xffffffff, scriptWitness = [replicate 32 0]\<rparr> # [] \<and>
      scriptWitness \<lparr>scriptSig = [], nSequence = 0xffffffff, scriptWitness = [replicate 32 0]\<rparr>
        = replicate 32 0 # [] \<and>
      EncryptAndSendMessage (example_ext 1000) example_ready_client
        (RequestTransactionDataSuccess 1 (replicate 32 0) [example_tx]) =
      Inr (True, example_ready_client\<lparr>m_sock := [Sent 44, Sent 44],
             wire := [RequestTransactionDataSuccess 1 (replicate 32 0) [example_tx]]\<rparr>)"
    using sent by (simp add: example_defs IsNull_def)
  have missing: "m_block_cache example_provider_cached 7 = None \<and>
      EncryptAndSendMessage (example_ext 1000) example_ready_client
        (RequestTransactionDataError 7 ''template-id-not-found'') =
      Inr (True, example_ready_client\<lparr>m_sock := [Sent 44, Sent 44],
             wire := [RequestTransactionDataError 7 ''template-id-not-found'']\<rparr>)"
    using sent by (simp add: example_defs)
  have flag: "\<not> m_disconnect_flag example_ready_client" "wire example_ready_client = []"
    by (simp_all add: example_defs)
  from RequestTransactionData_reply [THEN conjunct1, rule_format, OF found]
       RequestTransactionData_reply [THEN conjunct2, rule_format, OF missing] flag
  show ?thesis by simp
qed

section \<open>\<^verbatim>\<open>SubmitSolution\<close>\<close>

text \<open>
  \<^verbatim>\<open>m_coinbase_output_data_size_recv\<close> is only set for a confirmed client, so on every client
  that message processing can produce the second conjunct of the guard of the
  \<^verbatim>\<open>SUBMIT_SOLUTION\<close> case never changes its outcome.
\<close>

lemma SendWork_flags:
  assumes "SendWork ext tp c b = Inr (ok, tp', c')"
  shows "m_setup_connection_confirmed c' = m_setup_connection_confirmed c \<and>
         m_coinbase_output_data_size_recv c' = m_coinbase_output_data_size_recv c"
  using assms
  by (auto simp: SendWork_def Let_def split: sum.splits prod.splits if_splits
           dest!: EncryptAndSendMessage_shape)

lemma recv_implies_confirmed:
  assumes "m_coinbase_output_data_size_recv c \<longrightarrow> m_setup_connection_confirmed c"
    and "ProcessSv2Message ext m tp c = Inr (tp', c')"
  shows "m_coinbase_output_data_size_recv c' \<longrightarrow> m_setup_connection_confirmed c'"
proof (cases m)
  case (SETUP_CONNECTION parsed)
  with assms show ?thesis
    by (auto split: if_splits option.splits sum.splits prod.splits
             dest!: EncryptAndSendMessage_shape)
next
  case (COINBASE_OUTPUT_DATA_SIZE parsed)
  with assms show ?thesis
    by (auto simp: Let_def split: if_splits option.splits sum.splits prod.splits
             dest!: SendWork_flags)
next
  case (SUBMIT_SOLUTION parsed)
  with assms show ?thesis
    by (auto simp: Let_def split: if_splits option.splits)
next
  case (REQUEST_TRANSACTION_DATA parsed)
  with assms show ?thesis
    by (auto simp: Let_def split: if_splits option.splits sum.splits prod.splits
             dest!: EncryptAndSendMessage_shape)
next
  case (OTHER_MSG_TYPE t)
  with assms show ?thesis by simp
qed

text \<open>
  Claim C1 says that a \<^verbatim>\<open>SubmitSolution\<close> message is processed only when the client has
  both \<^verbatim>\<open>m_setup_connection_confirmed\<close> and \<^verbatim>\<open>m_coinbase_output_data_size_recv\<close>, and that the
  client is disconnected otherwise. The guard of the source disconnects only when both
  flags are unset. Here the client has confirmed its connection but has not sent
  \<^verbatim>\<open>CoinbaseOutputDataSize\<close>, and the template id of its solution is in the cache: the block
  is submitted and the client is not flagged for disconnection.
\<close>

theorem SubmitSolution_needs_one_flag_only:
  "m_setup_connection_confirmed example_confirmed_client \<and>
   \<not> m_coinbase_output_data_size_recv example_confirmed_client \<and>
   (\<exists>tp'. ProcessSv2Message (example_ext 1000) (SUBMIT_SOLUTION (Some example_solution))
        example_provider_cached example_confirmed_client = Inr (tp', example_confirmed_client) \<and>
      length (submitted tp') = 1 \<and>
      \<not> m_disconnect_flag example_confirmed_client)"
  by (simp add: example_defs)

text \<open>
  Claim C9 says that processing a \<^verbatim>\<open>SubmitSolution\<close> message leaves the cached template of
  its template id as it was, so that \<^verbatim>\<open>RequestTransactionData\<close> answers the same before and
  after. In the source the solution is written into the cached block, which is then moved
  from. Here template 1 is cached with a coinbase and one transaction: before the solution
  \<^verbatim>\<open>RequestTransactionData\<close> for template 1 is answered with that transaction; after it the
  cached block has no transactions, its header is not null, and the same request indexes
  \<^verbatim>\<open>vtx[0]\<close> of an empty vector.
\<close>

theorem SubmitSolution_empties_cached_template:
  "\<exists>tp1 client1 moved_from.
     ProcessSv2Message (example_ext 1000) (REQUEST_TRANSACTION_DATA (Some 1))
        example_provider_cached example_ready_client = Inr (example_provider_cached, client1) \<and>
     wire client1 = [RequestTransactionDataSuccess 1 (replicate 32 0) [example_tx]] \<and>
     ProcessSv2Message (example_ext 1000) (SUBMIT_SOLUTION (Some example_solution))
        example_provider_cached example_ready_client = Inr (tp1, example_ready_client) \<and>
     m_block_cache tp1 1 = Some moved_from \<and> vtx (block moved_from) = [] \<and>
     ProcessSv2Message (example_ext 1000) (REQUEST_TRANSACTION_DATA (Some 1))
        tp1 example_ready_client = Inl OutOfBounds"
  by (simp add: example_defs send_defs witness_reserve_value_of_def IsNull_def)

text \<open>
  Claim C6 says that a \<^verbatim>\<open>RequestTransactionData\<close> message for a template id that is in the
  block cache is answered with \<^verbatim>\<open>RequestTransactionDataSuccess\<close> carrying the transactions of
  the template after the coinbase and the witness reserved value, and one for a template id
  that is not in the cache with \<^verbatim>\<open>RequestTransactionDataError\<close>. The source does so for the
  templates the assembler has built and for the missing ids (\<open>RequestTransactionData_reply\<close>),
  but a template that a \<^verbatim>\<open>SubmitSolution\<close> message has named stays in the cache with its
  transactions moved out. Here the client submits a solution for template 1 and then
  requests its transactions: template 1 is in the cache, its header is not null, and the
  request gets no reply, because \<^verbatim>\<open>block.vtx[0]\<close> is evaluated on an empty vector.
\<close>

theorem RequestTransactionData_after_SubmitSolution:
  "\<exists>tp1 cached.
     ProcessSv2Message (example_ext 1000) (SUBMIT_SOLUTION (Some example_solution))
        example_provider_cached example_ready_client = Inr (tp1, example_ready_client) \<and>
     m_block_cache tp1 1 = Some cached \<and> \<not> IsNull (block cached) \<and>
     ProcessSv2Messages (example_ext 1000)
        [SUBMIT_SOLUTION (Some example_solution), REQUEST_TRANSACTION_DATA (Some 1)]
        example_provider_cached example_ready_client = Inl OutOfBounds"
  by (simp add: example_defs send_defs witness_reserve_value_of_def IsNull_def)

section \<open>Frames that end before their last byte\<close>

text \<open>
  Claim C2 says that decoding a received buffer reads only bytes of the buffer, and that a
  buffer that ends inside a frame makes the provider drop the connection. The loop of the
  source only tests \<^verbatim>\<open>bytes_read < buffer.size()\<close> before it builds the span of the 22 header
  bytes, and tests nothing before it builds the span of the payload. A buffer of one byte
  makes the header span end 21 bytes after the buffer, whatever the cipher does; a buffer
  with a whole header that announces 4 payload bytes (20 encrypted) but holds only 2 more
  bytes makes the payload span end 18 bytes after the buffer.
\<close>

theorem ReadAndDecryptSv2NetMsgs_reads_past_buffer:
  "ReadAndDecryptSv2NetMsgs DecryptMessage client [0x00] = Inl OutOfBounds \<and>
   ReadAndDecryptSv2NetMsgs example_decrypt example_ready_client
     ([0, 0, 0x70, 4, 0, 0] @ replicate 16 0 @ [1, 0]) = Inl OutOfBounds"
proof
  show "ReadAndDecryptSv2NetMsgs DecryptMessage client [0x00] = Inl OutOfBounds"
    unfolding ReadAndDecryptSv2NetMsgs_def
    by (subst ReadAndDecryptSv2NetMsgs_loop.simps)
       (simp add: span_def SV2_HEADER_ENCRYPTED_SIZE_def SV2_HEADER_PLAIN_SIZE_def POLY1305_TAGLEN_def)
  show "ReadAndDecryptSv2NetMsgs example_decrypt example_ready_client
     ([0, 0, 0x70, 4, 0, 0] @ replicate 16 0 @ [1, 0]) = Inl OutOfBounds"
    unfolding ReadAndDecryptSv2NetMsgs_def
    by (subst ReadAndDecryptSv2NetMsgs_loop.simps)
       (simp add: span_def send_defs example_decrypt_def)
qed

section \<open>The bound on \<^verbatim>\<open>m_coinbase_tx_outputs_size\<close>\<close>

lemma SendWork_size:
  assumes "SendWork ext tp c b = Inr (ok, tp', c')"
  shows "m_coinbase_tx_outputs_size c' = m_coinbase_tx_outputs_size c"
  using assms
  by (auto simp: SendWork_def Let_def split: sum.splits prod.splits if_splits
           dest!: EncryptAndSendMessage_shape)

lemma ProcessSv2Message_size:
  assumes "m_coinbase_tx_outputs_size c \<le> MAX_BLOCK_WEIGHT"
    and "ProcessSv2Message ext m tp c = Inr (tp', c')"
  shows "m_coinbase_tx_outputs_size c' \<le> MAX_BLOCK_WEIGHT"
proof (cases m)
  case (SETUP_CONNECTION parsed)
  with assms show ?thesis
    by (auto split: if_splits option.splits sum.splits prod.splits
             dest!: EncryptAndSendMessage_shape)
next
  case (COINBASE_OUTPUT_DATA_SIZE parsed)
  with assms show ?thesis
    by (auto simp: Let_def split: if_splits option.splits sum.splits prod.splits
             dest!: SendWork_size)
next
  case (SUBMIT_SOLUTION parsed)
  with assms show ?thesis
    by (auto simp: Let_def split: if_splits option.splits)
next
  case (REQUEST_TRANSACTION_DATA parsed)
  with assms show ?thesis
    by (auto simp: Let_def split: if_splits option.splits sum.splits prod.splits
             dest!: EncryptAndSendMessage_shape)
next
  case (OTHER_MSG_TYPE t)
  with assms show ?thesis by simp
qed

lemma ProcessSv2Messages_size:
  assumes "m_coinbase_tx_outputs_size c \<le> MAX_BLOCK_WEIGHT"
    and "ProcessSv2Messages ext ms tp c = Inr (tp', c')"
  shows "m_coinbase_tx_outputs_size c' \<le> MAX_BLOCK_WEIGHT"
  using assms
proof (induction ms arbitrary: tp c)
  case Nil
  then show ?case by simp
next
  case (Cons m ms)
  from Cons.prems(2) obtain tp1 c1 where
    first: "ProcessSv2Message ext m tp c = Inr (tp1, c1)"
    and rest: "ProcessSv2Messages ext ms tp1 c1 = Inr (tp', c')"
    by (auto split: sum.splits prod.splits)
  from ProcessSv2Message_size [OF Cons.prems(1) first] rest show ?case
    by (rule Cons.IH)
qed

lemma SendWork_clients_sizes:
  assumes "SendWork_clients ext b tp cs = Inr (tp', cs')"
  shows "map m_coinbase_tx_outputs_size cs' = map m_coinbase_tx_outputs_size cs"
  using assms
proof (induction cs arbitrary: tp tp' cs')
  case Nil
  then show ?case by simp
next
  case (Cons c cs)
  show ?case
  proof (cases "m_coinbase_tx_outputs_size c = 0")
    case True
    with Cons.prems obtain cs1 where
      "SendWork_clients ext b tp cs = Inr (tp', cs1)" "cs' = c # cs1"
      by (auto split: sum.splits prod.splits)
    with Cons.IH show ?thesis by simp
  next
    case False
    with Cons.prems obtain ok tp1 c1 cs1 where
      sw: "SendWork ext tp c b = Inr (ok, tp1, c1)"
      and rest: "SendWork_clients ext b tp1 cs = Inr (tp', cs1)"
      and cs': "cs' = (if ok then c1 else c1\<lparr>m_disconnect_flag := True\<rparr>) # cs1"
      by (auto split: sum.splits prod.splits)
    from SendWork_size [OF sw] Cons.IH [OF rest] cs' show ?thesis by simp
  qed
qed

lemma plan_templates_sizes:
  assumes "plan_templates g now upd h = (should, changed, h1)"
  shows "set (map m_coinbase_tx_outputs_size (m_sv2_clients h1))
           \<subseteq> set (map m_coinbase_tx_outputs_size (m_sv2_clients h))"
  using assms
  by (auto simp: plan_templates_def Let_def DisconnectFlagged_def split: if_splits prod.splits)

lemma ThreadSv2Handler_templates_sizes:
  assumes "ThreadSv2Handler_templates ext g now upd h = Inr h'"
  shows "set (map m_coinbase_tx_outputs_size (m_sv2_clients h'))
           \<subseteq> set (map m_coinbase_tx_outputs_size (m_sv2_clients h))"
proof -
  obtain should changed h1 where plan: "plan_templates g now upd h = (should, changed, h1)"
    by (cases "plan_templates g now upd h") auto
  note sub = plan_templates_sizes [OF plan]
  show ?thesis
  proof (cases should)
    case False
    with assms plan sub show ?thesis
      by (simp add: ThreadSv2Handler_templates_def)
  next
    case True
    with assms plan obtain tp cs where
      loop: "SendWork_clients ext changed (provider h1) (m_sv2_clients h1) = Inr (tp, cs)"
      and h': "h' = h1\<lparr>provider := tp, m_sv2_clients := cs\<rparr>"
      by (auto simp: ThreadSv2Handler_templates_def split: sum.splits prod.splits)
    from SendWork_clients_sizes [OF loop] h' sub show ?thesis by simp
  qed
qed

lemma ReadAndDecryptSv2NetMsgs_loop_size:
  assumes "ReadAndDecryptSv2NetMsgs_loop D buffer n c msgs = Inr (msgs', c')"
  shows "m_coinbase_tx_outputs_size c' = m_coinbase_tx_outputs_size c"
  using assms
proof (induction D buffer n c msgs rule: ReadAndDecryptSv2NetMsgs_loop.induct)
  case (1 D buffer n c msgs)
  from "1.prems" show ?case
    apply (subst (asm) ReadAndDecryptSv2NetMsgs_loop.simps)
    apply (auto split: if_splits sum.splits prod.splits option.splits dest!: "1.IH")
    done
qed

text \<open>
  Claim C8. \<^verbatim>\<open>m_coinbase_tx_outputs_size \<le> MAX_BLOCK_WEIGHT\<close> is kept by every sequence of
  processed messages; a \<^verbatim>\<open>CoinbaseOutputDataSize\<close> message from a confirmed client with a size
  above \<^verbatim>\<open>MAX_BLOCK_WEIGHT\<close> only sets \<^verbatim>\<open>m_coinbase_output_data_size_recv\<close> and the disconnect
  flag, the recorded size stays; and the other operations do not raise the field:
  \<^verbatim>\<open>SendWork\<close> and the decoding of received bytes leave it as it is, and the template part of
  an iteration of the event loop keeps the bound for every client.
\<close>

theorem coinbase_tx_outputs_size_bounded:
  "(m_coinbase_tx_outputs_size client \<le> MAX_BLOCK_WEIGHT \<and>
      ProcessSv2Messages ext msgs tp client = Inr (tp', client')
    \<longrightarrow> m_coinbase_tx_outputs_size client' \<le> MAX_BLOCK_WEIGHT) \<and>
   (max_additional_size > MAX_BLOCK_WEIGHT
    \<longrightarrow> (\<exists>client1.
          ProcessSv2Message ext (COINBASE_OUTPUT_DATA_SIZE (Some max_additional_size)) tp client
            = Inr (tp, client1) \<and>
          m_disconnect_flag client1 \<and>
          m_coinbase_tx_outputs_size client1 = m_coinbase_tx_outputs_size client)) \<and>
   (SendWork ext tp client send_new_prevhash = Inr (ok, tp', client')
    \<longrightarrow> m_coinbase_tx_outputs_size client' = m_coinbase_tx_outputs_size client) \<and>
   ((\<forall>c \<in> set (m_sv2_clients h). m_coinbase_tx_outputs_size c \<le> MAX_BLOCK_WEIGHT) \<and>
      ThreadSv2Handler_templates ext g_best_block now transactions_updated h = Inr h'
    \<longrightarrow> (\<forall>c \<in> set (m_sv2_clients h'). m_coinbase_tx_outputs_size c \<le> MAX_BLOCK_WEIGHT)) \<and>
   (ReadAndDecryptSv2NetMsgs DecryptMessage client buffer = Inr (sv2_msgs, client')
    \<longrightarrow> m_coinbase_tx_outputs_size client' = m_coinbase_tx_outputs_size client)"
proof (intro conjI impI)
  assume "m_coinbase_tx_outputs_size client \<le> MAX_BLOCK_WEIGHT \<and>
      ProcessSv2Messages ext msgs tp client = Inr (tp', client')"
  then show "m_coinbase_tx_outputs_size client' \<le> MAX_BLOCK_WEIGHT"
    using ProcessSv2Messages_size by blast
next
  assume "max_additional_size > MAX_BLOCK_WEIGHT"
  then show "\<exists>client1.
          ProcessSv2Message ext (COINBASE_OUTPUT_DATA_SIZE (Some max_additional_size)) tp client
            = Inr (tp, client1) \<and>
          m_disconnect_flag client1 \<and>
          m_coinbase_tx_outputs_size client1 = m_coinbase_tx_outputs_size client"
    by (cases "m_setup_connection_confirmed client") simp_all
next
  assume "SendWork ext tp client send_new_prevhash = Inr (ok, tp', client')"
  then show "m_coinbase_tx_outputs_size client' = m_coinbase_tx_outputs_size client"
    by (rule SendWork_size)
next
  assume h: "(\<forall>c \<in> set (m_sv2_clients h). m_coinbase_tx_outputs_size c \<le> MAX_BLOCK_WEIGHT) \<and>
      ThreadSv2Handler_templates ext g_best_block now transactions_updated h = Inr h'"
  then have "set (map m_coinbase_tx_outputs_size (m_sv2_clients h'))
           \<subseteq> set (map m_coinbase_tx_outputs_size (m_sv2_clients h))"
    using ThreadSv2Handler_templates_sizes by blast
  with h show "\<forall>c \<in> set (m_sv2_clients h'). m_coinbase_tx_outputs_size c \<le> MAX_BLOCK_WEIGHT"
    by auto
next
  assume "ReadAndDecryptSv2NetMsgs DecryptMessage client buffer = Inr (sv2_msgs, client')"
  then show "m_coinbase_tx_outputs_size client' = m_coinbase_tx_outputs_size client"
    unfolding ReadAndDecryptSv2NetMsgs_def by (rule ReadAndDecryptSv2NetMsgs_loop_size)
qed

theorem coinbase_tx_outputs_size_bounded_witness:
  "m_coinbase_tx_outputs_size example_client \<le> MAX_BLOCK_WEIGHT \<and>
   (\<exists>tp' client'.
      ProcessSv2Messages (example_ext 1000)
        [SETUP_CONNECTION (Some example_setup_conn), COINBASE_OUTPUT_DATA_SIZE (Some 1)]
        example_provider example_client = Inr (tp', client') \<and>
      m_coinbase_tx_outputs_size client' = 1 \<and>
      m_coinbase_tx_outputs_size client' \<le> MAX_BLOCK_WEIGHT) \<and>
   (4000001 :: u32) > MAX_BLOCK_WEIGHT \<and>
   (\<exists>client1.
      ProcessSv2Message (example_ext 1000) (COINBASE_OUTPUT_DATA_SIZE (Some 4000001))
        example_provider example_confirmed_client = Inr (example_provider, client1) \<and>
      m_disconnect_flag client1 \<and> m_coinbase_tx_outputs_size client1 = 0) \<and>
   (\<exists>tp' client'.
      SendWork (example_ext 1000) example_provider example_ready_client True = Inr (True, tp', client') \<and>
      m_coinbase_tx_outputs_size client' = m_coinbase_tx_outputs_size example_ready_client) \<and>
   (\<exists>h'. ThreadSv2Handler_templates (example_ext 1000) (replicate 32 1) 0 0 example_handler = Inr h' \<and>
      (\<forall>c \<in> set (m_sv2_clients h'). m_coinbase_tx_outputs_size c \<le> MAX_BLOCK_WEIGHT)) \<and>
   (\<exists>sv2_msgs client'.
      ReadAndDecryptSv2NetMsgs example_decrypt example_ready_client
        ([0, 0, 0x70, 0, 0, 0] @ replicate 16 0) = Inr (sv2_msgs, client') \<and>
      m_coinbase_tx_outputs_size client' = m_coinbase_tx_outputs_size example_ready_client)"
proof -
  have small: "m_coinbase_tx_outputs_size example_client \<le> MAX_BLOCK_WEIGHT"
    by (simp add: example_defs)
  obtain tp1 c1 where
    msgs: "ProcessSv2Messages (example_ext 1000)
        [SETUP_CONNECTION (Some example_setup_conn), COINBASE_OUTPUT_DATA_SIZE (Some 1)]
        example_provider example_client = Inr (tp1, c1)"
    and one: "m_coinbase_tx_outputs_size c1 = 1"
    by (simp add: example_defs send_defs work_defs TP_SUBPROTOCOL_def MAX_BLOCK_WEIGHT_def)
  have big: "(4000001 :: u32) > MAX_BLOCK_WEIGHT"
    by (simp add: MAX_BLOCK_WEIGHT_def)
  have zero: "m_coinbase_tx_outputs_size example_confirmed_client = 0"
    by (simp add: example_defs)
  obtain tp2 c2 where
    work: "SendWork (example_ext 1000) example_provider example_ready_client True = Inr (True, tp2, c2)"
    by (simp add: example_defs send_defs work_defs)
  have all: "\<forall>c \<in> set (m_sv2_clients example_handler). m_coinbase_tx_outputs_size c \<le> MAX_BLOCK_WEIGHT"
    by (simp add: example_defs MAX_BLOCK_WEIGHT_def)
  obtain h' where
    loop: "ThreadSv2Handler_templates (example_ext 1000) (replicate 32 1) 0 0 example_handler = Inr h'"
    by (simp add: ThreadSv2Handler_templates_def plan_templates_def DisconnectFlagged_def
          example_defs send_defs work_defs)
  obtain ms c3 where
    dec: "ReadAndDecryptSv2NetMsgs example_decrypt example_ready_client
        ([0, 0, 0x70, 0, 0, 0] @ replicate 16 0) = Inr (ms, c3)"
    by (simp add: ReadAndDecryptSv2NetMsgs_def ReadAndDecryptSv2NetMsgs_loop.simps span_def
          send_defs example_decrypt_def)
  note bounded = coinbase_tx_outputs_size_bounded
  from bounded [THEN conjunct2, THEN conjunct1, rule_format, OF big,
      of "example_ext 1000" example_provider example_confirmed_client] zero
  have rejected: "\<exists>client1.
      ProcessSv2Message (example_ext 1000) (COINBASE_OUTPUT_DATA_SIZE (Some 4000001))
        example_provider example_confirmed_client = Inr (example_provider, client1) \<and>
      m_disconnect_flag client1 \<and> m_coinbase_tx_outputs_size client1 = 0"
    by simp
  from bounded [THEN conjunct1, rule_format, OF conjI, OF small msgs]
    bounded [THEN conjunct2, THEN conjunct2, THEN conjunct1, rule_format, OF work]
    bounded [THEN conjunct2, THEN conjunct2, THEN conjunct2, THEN conjunct1, rule_format, OF conjI, OF all loop]
    bounded [THEN conjunct2, THEN conjunct2, THEN conjunct2, THEN conjunct2, rule_format, OF dec]
    small msgs one big rejected work loop dec
  show ?thesis by blast
qed

lemma SendWork_cache_origin:
  assumes "SendWork ext tp c b = Inr (ok, tp', c')" and "m_block_cache tp' i = Some t"
  shows "m_block_cache tp i = Some t \<or> (\<exists>w. t = CreateNewBlock ext w)"
  using assms
  by (auto simp: SendWork_def BuildNewWorkSet_def Let_def cache_insert_def
           split: sum.splits prod.splits if_splits option.splits)

lemma SendWork_clients_cache_origin:
  assumes "SendWork_clients ext b tp cs = Inr (tp', cs')" and "m_block_cache tp' i = Some t"
  shows "m_block_cache tp i = Some t \<or> (\<exists>w. t = CreateNewBlock ext w)"
  using assms
proof (induction cs arbitrary: tp cs')
  case Nil
  then show ?case by simp
next
  case (Cons c cs)
  show ?case
  proof (cases "m_coinbase_tx_outputs_size c = 0")
    case True
    with Cons.prems(1) obtain cs1 where "SendWork_clients ext b tp cs = Inr (tp', cs1)"
      by (auto split: sum.splits prod.splits)
    from Cons.IH [OF this Cons.prems(2)] show ?thesis .
  next
    case False
    with Cons.prems(1) obtain ok tp1 c1 cs1 where
      sw: "SendWork ext tp c b = Inr (ok, tp1, c1)"
      and rest: "SendWork_clients ext b tp1 cs = Inr (tp', cs1)"
      by (auto split: sum.splits prod.splits)
    from Cons.IH [OF rest Cons.prems(2)] SendWork_cache_origin [OF sw] show ?thesis by blast
  qed
qed

text \<open>
  Claim C7. In an iteration in which \<^verbatim>\<open>g_best_block\<close> differs from the best block the
  provider knows, the state \<open>h1\<close> in which the loop over the clients starts, before the first
  \<^verbatim>\<open>SendWork\<close>, has an empty block cache, the template id of the previous iteration (no
  template has been built), and as clients the unflagged clients with their wire as it was
  and \<^verbatim>\<open>m_latest_submitted_template_fees = 0\<close>; the iteration is that loop run from \<open>h1\<close>
  with \<^verbatim>\<open>send_new_prevhash = true\<close>. Hence every template in the cache when the iteration
  returns was built by the block assembler in this iteration.
\<close>

theorem best_block_change_clears_cache:
  assumes "m_best_prev_hash (provider h) \<noteq> g_best_block"
  shows "\<exists>h1.
     plan_templates g_best_block now transactions_updated h = (True, True, h1) \<and>
     m_block_cache (provider h1) = Map.empty \<and>
     m_template_id (provider h1) = m_template_id (provider h) \<and>
     m_sv2_clients h1 =
       map (\<lambda>client. client\<lparr>m_latest_submitted_template_fees := 0\<rparr>)
         (DisconnectFlagged (m_sv2_clients h)) \<and>
     (\<forall>client \<in> set (m_sv2_clients h1). m_latest_submitted_template_fees client = 0) \<and>
     ThreadSv2Handler_templates ext g_best_block now transactions_updated h =
       (case SendWork_clients ext True (provider h1) (m_sv2_clients h1) of
          Inl f \<Rightarrow> Inl f
        | Inr (tp, clients) \<Rightarrow> Inr (h1\<lparr>provider := tp, m_sv2_clients := clients\<rparr>)) \<and>
     (\<forall>h' i t. ThreadSv2Handler_templates ext g_best_block now transactions_updated h = Inr h' \<and>
          m_block_cache (provider h') i = Some t \<longrightarrow> (\<exists>w. t = CreateNewBlock ext w))"
proof -
  define h1 where "h1 = h\<lparr>provider := (provider h)\<lparr>m_best_prev_hash := g_best_block, m_block_cache := Map.empty\<rparr>,
       m_sv2_clients := map (\<lambda>client. client\<lparr>m_latest_submitted_template_fees := 0\<rparr>)
         (DisconnectFlagged (m_sv2_clients h)),
       template_last_update := transactions_updated\<rparr>"
  have plan: "plan_templates g_best_block now transactions_updated h = (True, True, h1)"
    using assms by (simp add: plan_templates_def Let_def h1_def)
  have run: "ThreadSv2Handler_templates ext g_best_block now transactions_updated h =
       (case SendWork_clients ext True (provider h1) (m_sv2_clients h1) of
          Inl f \<Rightarrow> Inl f
        | Inr (tp, clients) \<Rightarrow> Inr (h1\<lparr>provider := tp, m_sv2_clients := clients\<rparr>))"
    by (simp add: ThreadSv2Handler_templates_def plan)
  have empty: "m_block_cache (provider h1) = Map.empty" by (simp add: h1_def)
  have fresh: "\<exists>w. t = CreateNewBlock ext w"
    if "ThreadSv2Handler_templates ext g_best_block now transactions_updated h = Inr h'"
      and "m_block_cache (provider h') i = Some t" for h' i t
  proof -
    from that(1) run obtain tp clients where
      loop: "SendWork_clients ext True (provider h1) (m_sv2_clients h1) = Inr (tp, clients)"
      and h': "h' = h1\<lparr>provider := tp, m_sv2_clients := clients\<rparr>"
      by (auto split: sum.splits prod.splits)
    from that(2) h' have "m_block_cache tp i = Some t" by simp
    from SendWork_clients_cache_origin [OF loop this] empty show ?thesis by simp
  qed
  show ?thesis
    apply (rule exI [of _ h1])
    apply (intro conjI)
          apply (rule plan)
         apply (rule empty)
        apply (simp add: h1_def)
       apply (simp add: h1_def)
      apply (simp add: h1_def)
     apply (rule run)
    using fresh apply blast
    done
qed

theorem best_block_change_clears_cache_witness:
  "m_best_prev_hash (provider example_handler) \<noteq> replicate 32 1 \<and>
   m_block_cache (provider example_handler) 1 = Some (example_template 1000) \<and>
   (\<exists>h1. plan_templates (replicate 32 1) 0 0 example_handler = (True, True, h1) \<and>
      m_block_cache (provider h1) = Map.empty \<and>
      (\<forall>client \<in> set (m_sv2_clients h1). m_latest_submitted_template_fees client = 0) \<and>
      (\<forall>h' i t. ThreadSv2Handler_templates (example_ext 2000) (replicate 32 1) 0 0 example_handler = Inr h' \<and>
          m_block_cache (provider h') i = Some t \<longrightarrow> t = example_template 2000))"
proof -
  have changed: "m_best_prev_hash (provider example_handler) \<noteq> replicate 32 1"
    by (simp add: example_defs)
  have cached: "m_block_cache (provider example_handler) 1 = Some (example_template 1000)"
    by (simp add: example_defs)
  have new: "CreateNewBlock (example_ext 2000) w = example_template 2000" for w
    by (simp add: example_defs)
  from best_block_change_clears_cache [OF changed, of 0 0 "example_ext 2000"] changed cached
  show ?thesis
    unfolding new by blast
qed

section \<open>The protocol name hashes\<close>

lemma Sv2SymmetricState_init_fields:
  "m_chaining_key (Sv2SymmetricState_init uninit_ck uninit_key) = PROTOCOL_NAME_HASH"
  "m_hash_output (Sv2SymmetricState_init uninit_ck uninit_key) = PROTOCOL_NAME_DOUBLE_HASH"
  "m_nonce (m_cipher_state (Sv2SymmetricState_init uninit_ck uninit_key)) = 0"
  "length PROTOCOL_NAME_HASH = KEY_SIZE"
  by (simp_all add: Sv2SymmetricState_init_def PROTOCOL_NAME_HASH_def KEY_SIZE_def)

lemma PROTOCOL_NAME_HASH_SHA256:
  "SHA256 (ascii ''Noise_NX_EllSwiftXonly_ChaChaPoly_SHA256'') = PROTOCOL_NAME_HASH"
  by code_simp

lemma PROTOCOL_NAME_DOUBLE_HASH_SHA256:
  "SHA256 PROTOCOL_NAME_HASH = PROTOCOL_NAME_DOUBLE_HASH"
  by code_simp

text \<open>
  Claim C10. \<^verbatim>\<open>PROTOCOL_NAME_HASH\<close> is the SHA-256 hash of the ASCII string
  \<^verbatim>\<open>Noise_NX_EllSwiftXonly_ChaChaPoly_SHA256\<close>, \<^verbatim>\<open>PROTOCOL_NAME_DOUBLE_HASH\<close> is the SHA-256
  hash of \<^verbatim>\<open>PROTOCOL_NAME_HASH\<close>, and a freshly constructed \<^verbatim>\<open>Sv2SymmetricState\<close> has the
  first as its chaining key and the second as its hash output, whatever its arrays held
  before.
\<close>

theorem protocol_name_hashes:
  "SHA256 (ascii ''Noise_NX_EllSwiftXonly_ChaChaPoly_SHA256'') = PROTOCOL_NAME_HASH \<and>
   SHA256 PROTOCOL_NAME_HASH = PROTOCOL_NAME_DOUBLE_HASH \<and>
   m_chaining_key (Sv2SymmetricState_init uninit_ck uninit_key) = PROTOCOL_NAME_HASH \<and>
   m_hash_output (Sv2SymmetricState_init uninit_ck uninit_key) = PROTOCOL_NAME_DOUBLE_HASH"
  by (simp add: PROTOCOL_NAME_HASH_SHA256 PROTOCOL_NAME_DOUBLE_HASH_SHA256
        Sv2SymmetricState_init_fields)

end
